theory Spec2Isabelle
  imports Complex_Main "HOL-Library.Multiset"
begin

section \<open>Data model of the productivity backend (src/backend/main.py)\<close>

text \<open>
  The backend keeps its state in PostgreSQL tables and reads the wall clock with
  \<^verbatim>\<open>datetime.now()\<close>. A table is a list of rows (records) in storage order, the
  database is a record of its tables together with the two serial counters that feed
  \<^verbatim>\<open>RETURNING id_registro\<close> and \<^verbatim>\<open>RETURNING id_pausa\<close>, and the clock readings are
  arguments of the handlers.

  A \<^verbatim>\<open>datetime\<close> has microsecond resolution: a timestamp is an integer number of
  microseconds, a calendar date an integer number of days. Numbers of seconds are
  rationals. The duration of a cycle (steps 2 to 2.3) is kept as the exact difference of
  elapsed and paused seconds, and the thresholds are the values that \<^verbatim>\<open>float\<close> returned
  for them. The rolling average (step 3) is computed as the code computes it, in IEEE 754
  binary64 arithmetic: the stored durations are converted by \<^verbatim>\<open>float\<close>, \<^verbatim>\<open>sum\<close> adds
  from left to right and \<^verbatim>\<open>/\<close> divides, each operation rounding its exact result to the
  nearest double; the duration is rounded when it enters the sum.

  Only the tables and columns that the two handlers read or write are present. The
  columns are NOT NULL where the handlers rely on it (thresholds, \<^verbatim>\<open>finalizada\<close>);
  failures of the database connection, which the handlers turn into status 500, are not
  modelled.
\<close>

type_synonym timestamp = int
type_synonym date = int

record tarea =
  t_id_tarea :: int
  tiempo_estandar_s :: rat
  umbral_excelente_s :: rat
  umbral_lento_s :: rat

record operario_tarea =
  ot_id_operario :: int
  ot_id_tarea :: int
  activa :: bool

record registro_ciclo =
  id_registro :: int
  rc_id_operario :: int
  rc_id_tarea :: int
  marca_tiempo :: timestamp
  tiempo_ciclo_s :: "rat option"
  promedio_5_ciclos :: "rat option"
  estado :: string
  fecha_registro :: date

record registro_pausa =
  id_pausa :: int
  rp_id_operario :: int
  hora_inicio_pausa :: timestamp
  hora_fin_pausa :: "timestamp option"
  motivo :: "string option"
  duracion_s :: "int option"
  finalizada :: bool

record db =
  Tareas :: "tarea list"
  Operario_Tarea :: "operario_tarea list"
  Registros_Ciclos :: "registro_ciclo list"
  Registros_Pausas :: "registro_pausa list"
  seq_id_registro :: int
  seq_id_pausa :: int

text \<open>\<^verbatim>\<open>HTTPException(status_code=..., detail=...)\<close>.\<close>

datatype http_exception = HTTPException (status_code: int) (detail: string)

text \<open>
  \<^verbatim>\<open>CicloResponse\<close> and \<^verbatim>\<open>PausaResponse\<close>. The free-text field \<^verbatim>\<open>mensaje\<close>, which formats
  floats for display, is left out of both.
\<close>

record ciclo_response =
  resp_id_registro :: int
  resp_tiempo_ciclo_s :: "rat option"
  resp_promedio_5_ciclos :: "rat option"
  resp_estado :: string
  ciclos_completados_hoy :: nat

record pausa_response =
  resp_id_pausa :: int
  resp_duracion_s :: "int option"

datatype accion = INICIO | FIN

record pausa_request =
  req_id_operario :: int
  req_accion :: accion
  req_motivo :: "string option"

section \<open>Python and SQL primitives\<close>

text \<open>\<^verbatim>\<open>timedelta.total_seconds()\<close> of a difference of two timestamps.\<close>

definition total_seconds :: "int \<Rightarrow> rat" where
  "total_seconds us = of_int us / 1000000"

text \<open>\<^verbatim>\<open>int(x)\<close> on a float truncates towards zero.\<close>

definition py_int :: "rat \<Rightarrow> int" where
  "py_int x = (if 0 \<le> x then \<lfloor>x\<rfloor> else \<lceil>x\<rceil>)"

text \<open>\<^verbatim>\<open>datetime.date()\<close>.\<close>

definition date_of :: "timestamp \<Rightarrow> date" where
  "date_of t = t div 86400000000"

text \<open>\<^verbatim>\<open>str(n)\<close> for the integer that is formatted into an error detail.\<close>

fun str_nat :: "nat \<Rightarrow> string" where
  "str_nat n =
     (if n < 10 then [char_of (48 + n)]
      else str_nat (n div 10) @ [char_of (48 + n mod 10)])"

definition str_int :: "int \<Rightarrow> string" where
  "str_int i = (if i < 0 then CHR ''-'' # str_nat (nat (- i)) else str_nat (nat i))"

text \<open>\<^verbatim>\<open>cursor.fetchone()\<close>: the first row of the result, or \<^verbatim>\<open>None\<close>.\<close>

definition fetchone :: "'a list \<Rightarrow> 'a option" where
  "fetchone rows = (case rows of [] \<Rightarrow> None | r # _ \<Rightarrow> Some r)"

text \<open>
  \<^verbatim>\<open>ORDER BY key DESC\<close>. SQL leaves the order of rows with equal keys open; the model
  keeps them in storage order.
\<close>

definition order_by_desc :: "('a \<Rightarrow> int) \<Rightarrow> 'a list \<Rightarrow> 'a list" where
  "order_by_desc key rows = sort_key (\<lambda>r. - key r) rows"

text \<open>\<^verbatim>\<open>SUM(col)\<close> skips NULL and is NULL on no rows; \<^verbatim>\<open>COALESCE(SUM(col), 0)\<close>.\<close>

definition coalesce_sum :: "int option list \<Rightarrow> int" where
  "coalesce_sum col = sum_list (map (\<lambda>v. case v of None \<Rightarrow> 0 | Some n \<Rightarrow> n) col)"

subsection \<open>Python floats\<close>

text \<open>
  A Python \<^verbatim>\<open>float\<close> is an IEEE 754 binary64 number: a significand of 53 binary digits
  and a power of two, the smallest quantum being 2 to the power -1074. A double is modelled by
  the rational it denotes, and an operation by the exact operation followed by
  \<open>py_float\<close>, which rounds a rational to the nearest double, a tie going to the even
  significand. Overflow to infinity (from 2 to the power 1024 on) is not modelled: the numbers are
  seconds.
\<close>

text \<open>The number of binary digits of a natural number (\<^verbatim>\<open>int.bit_length\<close>).\<close>

fun bit_length :: "nat \<Rightarrow> nat" where
  "bit_length n = (if n = 0 then 0 else Suc (bit_length (n div 2)))"

declare bit_length.simps [simp del]

text \<open>The exponent \<open>e\<close> of a positive rational \<open>x\<close>: \<open>2 ^ e \<le> x < 2 ^ (e + 1)\<close>.\<close>

definition log2_floor :: "rat \<Rightarrow> int" where
  "log2_floor x =
     (if 1 \<le> x then int (bit_length (nat \<lfloor>x\<rfloor>)) - 1
      else - int (bit_length (nat (\<lceil>1 / x\<rceil> - 1))))"

definition pow2 :: "int \<Rightarrow> rat" where
  "pow2 k = (if 0 \<le> k then 2 ^ nat k else 1 / 2 ^ nat (- k))"

text \<open>Rounding to the nearest integer, a tie to the even one.\<close>

definition round_half_even :: "rat \<Rightarrow> int" where
  "round_half_even y =
     (let f = \<lfloor>y\<rfloor>; r = y - of_int f
      in if r < 1 / 2 then f else if 1 / 2 < r then f + 1
         else if even f then f else f + 1)"

text \<open>
  \<^verbatim>\<open>float(x)\<close>, and the rounding of every float operation: the multiple of the quantum
  \<open>2 ^ (e - 52)\<close> of the binade of \<open>x\<close> that is nearest to \<open>x\<close>.
\<close>

definition py_float :: "rat \<Rightarrow> rat" where
  "py_float x =
     (if x = 0 then 0
      else let q = pow2 (max (log2_floor \<bar>x\<bar> - 52) (- 1074))
           in of_int (round_half_even (x / q)) * q)"

text \<open>\<^verbatim>\<open>a + b\<close> and \<^verbatim>\<open>a / b\<close> on floats (an \<^verbatim>\<open>int\<close> operand is converted first).\<close>

definition float_add :: "rat \<Rightarrow> rat \<Rightarrow> rat" where
  "float_add a b = py_float (a + b)"

definition float_truediv :: "rat \<Rightarrow> rat \<Rightarrow> rat" where
  "float_truediv a b = py_float (a / b)"

text \<open>
  \<^verbatim>\<open>sum(xs)\<close> on a list of floats: it starts from 0 and adds the items in list order, one
  rounded addition each (the loop of CPython's \<^verbatim>\<open>sum\<close> up to version 3.11; from 3.12 on it
  carries a compensation term).
\<close>

definition py_sum :: "rat list \<Rightarrow> rat" where
  "py_sum xs = foldl float_add 0 xs"

section \<open>POST /api/ciclo: \<^verbatim>\<open>registrar_ciclo\<close>\<close>

text \<open>
  Step 1: the operator's active task with its thresholds
  (\<^verbatim>\<open>Operario_Tarea JOIN Tareas ... WHERE id_operario = %s AND activa = TRUE LIMIT 1\<close>).
  The query has no \<^verbatim>\<open>ORDER BY\<close>: the model returns the first match in storage order.
\<close>

definition tarea_info :: "db \<Rightarrow> int \<Rightarrow> (operario_tarea \<times> tarea) option" where
  "tarea_info d id_op =
     fetchone
       [(ot, t). ot \<leftarrow> Operario_Tarea d, t \<leftarrow> Tareas d,
                 ot_id_tarea ot = t_id_tarea t,
                 ot_id_operario ot = id_op \<and> activa ot]"

text \<open>
  Step 2: \<^verbatim>\<open>SELECT marca_tiempo FROM Registros_Ciclos WHERE id_operario = %s
  ORDER BY marca_tiempo DESC LIMIT 1\<close>.
\<close>

definition ultimo_ciclo :: "db \<Rightarrow> int \<Rightarrow> timestamp option" where
  "ultimo_ciclo d id_op =
     fetchone (take 1 (map marca_tiempo
       (order_by_desc marca_tiempo
          (filter (\<lambda>r. rc_id_operario r = id_op) (Registros_Ciclos d)))))"

text \<open>
  Steps 2.1 and 2.2 share their \<^verbatim>\<open>WHERE\<close> clause but for the value of \<^verbatim>\<open>finalizada\<close>:
  \<^verbatim>\<open>id_operario = %s AND finalizada = ... AND hora_inicio_pausa > %s AND hora_inicio_pausa < %s\<close>.
\<close>

definition pausas_en_periodo ::
    "db \<Rightarrow> int \<Rightarrow> bool \<Rightarrow> timestamp \<Rightarrow> timestamp \<Rightarrow> registro_pausa list" where
  "pausas_en_periodo d id_op fin desde hasta =
     filter (\<lambda>p. rp_id_operario p = id_op \<and> finalizada p = fin
                 \<and> hora_inicio_pausa p > desde \<and> hora_inicio_pausa p < hasta)
            (Registros_Pausas d)"

definition tiempo_total_pausas :: "db \<Rightarrow> int \<Rightarrow> timestamp \<Rightarrow> timestamp \<Rightarrow> int" where
  "tiempo_total_pausas d id_op desde hasta =
     coalesce_sum (map duracion_s (pausas_en_periodo d id_op True desde hasta))"

definition pausas_sin_finalizar :: "db \<Rightarrow> int \<Rightarrow> timestamp \<Rightarrow> timestamp \<Rightarrow> nat" where
  "pausas_sin_finalizar d id_op desde hasta =
     length (pausas_en_periodo d id_op False desde hasta)"

text \<open>
  Steps 2 to 2.3: the value of the variable \<^verbatim>\<open>tiempo_ciclo_s\<close> after the
  \<^verbatim>\<open>if ultimo_ciclo:\<close> block.
\<close>

definition calcular_tiempo_ciclo_s :: "db \<Rightarrow> timestamp \<Rightarrow> int \<Rightarrow> rat option" where
  "calcular_tiempo_ciclo_s d marca_tiempo_actual id_op =
     (case ultimo_ciclo d id_op of
        None \<Rightarrow> None
      | Some ultimo \<Rightarrow>
          let tiempo_bruto_s = total_seconds (marca_tiempo_actual - ultimo);
              tiempo_total_pausas_s = tiempo_total_pausas d id_op ultimo marca_tiempo_actual
          in if pausas_sin_finalizar d id_op ultimo marca_tiempo_actual > 0 then None
             else let t = tiempo_bruto_s - of_int tiempo_total_pausas_s
                  in if t > 300 \<or> t < 0 then None else Some t)"

text \<open>
  Step 3: \<^verbatim>\<open>SELECT tiempo_ciclo_s FROM Registros_Ciclos WHERE id_operario = %s AND
  tiempo_ciclo_s IS NOT NULL AND fecha_registro = CURRENT_DATE ORDER BY marca_tiempo DESC
  LIMIT 4\<close>. First the rows, then the list \<^verbatim>\<open>[float(c['tiempo_ciclo_s']) for c in
  ultimos_ciclos]\<close>; the \<^verbatim>\<open>WHERE\<close> clause leaves no NULL to convert (lemma
  \<open>ultimos_ciclos_eq\<close>).
\<close>

definition ultimos_ciclos_rows :: "db \<Rightarrow> date \<Rightarrow> int \<Rightarrow> registro_ciclo list" where
  "ultimos_ciclos_rows d current_date id_op =
     take 4 (order_by_desc marca_tiempo
       (filter (\<lambda>r. rc_id_operario r = id_op \<and> tiempo_ciclo_s r \<noteq> None
                     \<and> fecha_registro r = current_date)
               (Registros_Ciclos d)))"

definition ultimos_ciclos :: "db \<Rightarrow> date \<Rightarrow> int \<Rightarrow> rat list" where
  "ultimos_ciclos d current_date id_op =
     map (\<lambda>c. py_float (the (tiempo_ciclo_s c))) (ultimos_ciclos_rows d current_date id_op)"

text \<open>
  The value of the variable \<^verbatim>\<open>promedio_5_ciclos\<close>: \<^verbatim>\<open>sum(tiempos) / len(tiempos)\<close> over the
  current duration followed by the fetched ones, when there is a current duration. Both
  operations are float operations.
\<close>

definition calcular_promedio_5_ciclos :: "rat option \<Rightarrow> rat list \<Rightarrow> rat option" where
  "calcular_promedio_5_ciclos tiempo ultimos =
     (case tiempo of
        None \<Rightarrow> None
      | Some t \<Rightarrow> let tiempos = t # ultimos
                  in Some (float_truediv (py_sum tiempos) (of_nat (length tiempos))))"

text \<open>Step 4: the status from the average and the two thresholds of the task.\<close>

definition determinar_estado :: "rat option \<Rightarrow> rat \<Rightarrow> rat \<Rightarrow> string" where
  "determinar_estado promedio umbral_excelente umbral_lento =
     (case promedio of
        None \<Rightarrow> ''Normal''
      | Some p \<Rightarrow> if p \<le> umbral_excelente then ''Excelente''
                  else if p \<ge> umbral_lento then ''Lento''
                  else ''Normal'')"

text \<open>
  \<^verbatim>\<open>with get_db_connection() as conn:\<close> commits when the body returns and rolls back
  when it raises: a raised exception leaves the database as it was before the request.
\<close>

definition get_db_connection ::
    "db \<Rightarrow> (http_exception + 'a \<times> db) \<Rightarrow> (http_exception + 'a) \<times> db" where
  "get_db_connection d body =
     (case body of Inl e \<Rightarrow> (Inl e, d) | Inr (r, d') \<Rightarrow> (Inr r, d'))"

text \<open>
  The handler. \<open>marca_tiempo_actual\<close> is the reading of \<^verbatim>\<open>datetime.now()\<close>,
  \<open>current_date\<close> the value of SQL's \<^verbatim>\<open>CURRENT_DATE\<close>. The result pairs the
  response, or the raised \<^verbatim>\<open>HTTPException\<close>, with the database after the request.
\<close>

definition registrar_ciclo ::
    "db \<Rightarrow> timestamp \<Rightarrow> date \<Rightarrow> int \<Rightarrow> (http_exception + ciclo_response) \<times> db" where
  "registrar_ciclo d marca_tiempo_actual current_date id_op =
     get_db_connection d
     (case tarea_info d id_op of
        None \<Rightarrow>
          Inl (HTTPException 404
                 (''Operario '' @ str_int id_op @ '' no encontrado o sin tarea asignada''))
      | Some (ot, t) \<Rightarrow>
          let id_tarea = ot_id_tarea ot;
              umbral_excelente = umbral_excelente_s t;
              umbral_lento = umbral_lento_s t;
              tiempo = calcular_tiempo_ciclo_s d marca_tiempo_actual id_op;
              promedio = calcular_promedio_5_ciclos tiempo (ultimos_ciclos d current_date id_op);
              est = determinar_estado promedio umbral_excelente umbral_lento;
              id_reg = seq_id_registro d;
              fila = \<lparr> id_registro = id_reg, rc_id_operario = id_op, rc_id_tarea = id_tarea,
                       marca_tiempo = marca_tiempo_actual, tiempo_ciclo_s = tiempo,
                       promedio_5_ciclos = promedio, estado = est,
                       fecha_registro = date_of marca_tiempo_actual \<rparr>;
              d' = d \<lparr> Registros_Ciclos := Registros_Ciclos d @ [fila],
                       seq_id_registro := id_reg + 1 \<rparr>;
              ciclos_hoy = length (filter (\<lambda>r. rc_id_operario r = id_op
                                               \<and> fecha_registro r = current_date)
                                          (Registros_Ciclos d'))
          in Inr (\<lparr> resp_id_registro = id_reg, resp_tiempo_ciclo_s = tiempo,
                    resp_promedio_5_ciclos = promedio, resp_estado = est,
                    ciclos_completados_hoy = ciclos_hoy \<rparr>, d'))"

section \<open>POST /api/pausa: \<^verbatim>\<open>registrar_pausa\<close>\<close>

text \<open>\<^verbatim>\<open>WHERE id_operario = %s AND finalizada = FALSE\<close>.\<close>

definition pausas_abiertas :: "db \<Rightarrow> int \<Rightarrow> registro_pausa list" where
  "pausas_abiertas d id_op =
     filter (\<lambda>p. rp_id_operario p = id_op \<and> finalizada p = False) (Registros_Pausas d)"

text \<open>
  \<^verbatim>\<open>UPDATE Registros_Pausas SET hora_fin_pausa = %s, duracion_s = %s, finalizada = TRUE
  WHERE id_pausa = %s\<close>.
\<close>

definition update_pausa ::
    "int \<Rightarrow> timestamp \<Rightarrow> int \<Rightarrow> registro_pausa list \<Rightarrow> registro_pausa list" where
  "update_pausa idp hora_fin dur rows =
     map (\<lambda>p. if id_pausa p = idp
               then p \<lparr> hora_fin_pausa := Some hora_fin, duracion_s := Some dur,
                        finalizada := True \<rparr>
               else p) rows"

definition registrar_pausa ::
    "db \<Rightarrow> timestamp \<Rightarrow> pausa_request \<Rightarrow> (http_exception + pausa_response) \<times> db" where
  "registrar_pausa d ahora pausa =
     get_db_connection d
     (case req_accion pausa of
        INICIO \<Rightarrow>
          (case fetchone (pausas_abiertas d (req_id_operario pausa)) of
             Some pausa_abierta \<Rightarrow>
               Inl (HTTPException 400 ''Ya existe una pausa activa para este operario'')
           | None \<Rightarrow>
               let idp = seq_id_pausa d;
                   fila = \<lparr> id_pausa = idp, rp_id_operario = req_id_operario pausa,
                            hora_inicio_pausa = ahora, hora_fin_pausa = None,
                            motivo = req_motivo pausa, duracion_s = None,
                            finalizada = False \<rparr>
               in Inr (\<lparr> resp_id_pausa = idp, resp_duracion_s = None \<rparr>,
                       d \<lparr> Registros_Pausas := Registros_Pausas d @ [fila],
                           seq_id_pausa := idp + 1 \<rparr>))
      | FIN \<Rightarrow>
          (case fetchone (take 1 (order_by_desc hora_inicio_pausa
                                    (pausas_abiertas d (req_id_operario pausa)))) of
             None \<Rightarrow>
               Inl (HTTPException 404 ''No hay pausas activas para este operario'')
           | Some pausa_activa \<Rightarrow>
               let hora_fin = ahora;
                   duracion = hora_fin - hora_inicio_pausa pausa_activa;
                   dur_s = py_int (total_seconds duracion)
               in Inr (\<lparr> resp_id_pausa = id_pausa pausa_activa,
                         resp_duracion_s = Some dur_s \<rparr>,
                       d \<lparr> Registros_Pausas :=
                             update_pausa (id_pausa pausa_activa) hora_fin dur_s
                               (Registros_Pausas d) \<rparr>)))"

section \<open>Vocabulary of the properties\<close>

text \<open>
  The state of an operator's pause machine: paused when some row of
  \<^verbatim>\<open>Registros_Pausas\<close> of the operator is not \<^verbatim>\<open>finalizada\<close>.
\<close>

definition en_pausa :: "db \<Rightarrow> int \<Rightarrow> bool" where
  "en_pausa d id_op =
     list_ex (\<lambda>p. rp_id_operario p = id_op \<and> \<not> finalizada p) (Registros_Pausas d)"

text \<open>
  The rows whose durations may enter the rolling average: the operator's rows of the
  current date with a duration.
\<close>

definition ciclos_validos_hoy :: "db \<Rightarrow> date \<Rightarrow> int \<Rightarrow> registro_ciclo list" where
  "ciclos_validos_hoy d current_date id_op =
     filter (\<lambda>r. rc_id_operario r = id_op \<and> tiempo_ciclo_s r \<noteq> None
                   \<and> fecha_registro r = current_date)
            (Registros_Ciclos d)"

text \<open>
  The seconds of the closed pauses of the operator that started strictly inside the
  window, summed over the whole table.
\<close>

definition segundos_pausas_cerradas :: "db \<Rightarrow> int \<Rightarrow> timestamp \<Rightarrow> timestamp \<Rightarrow> int" where
  "segundos_pausas_cerradas d id_op desde hasta =
     (\<Sum>p\<leftarrow>Registros_Pausas d.
        if rp_id_operario p = id_op \<and> finalizada p
           \<and> desde < hora_inicio_pausa p \<and> hora_inicio_pausa p < hasta
        then (case duracion_s p of None \<Rightarrow> 0 | Some n \<Rightarrow> n) else 0)"

text \<open>Whole seconds of a number of microseconds, rounded towards zero.\<close>

definition segundos_truncados :: "int \<Rightarrow> int" where
  "segundos_truncados us = sgn us * (\<bar>us\<bar> div 1000000)"

text \<open>The order of the three status labels: Excelente, then Normal, then Lento.\<close>

definition rango_estado :: "string \<Rightarrow> nat" where
  "rango_estado e = (if e = ''Excelente'' then 0 else if e = ''Normal'' then 1 else 2)"

text \<open>A cycle row with its task id blanked: what is left is everything but the task.\<close>

definition sin_tarea :: "registro_ciclo \<Rightarrow> registro_ciclo" where
  "sin_tarea r = r \<lparr> rc_id_tarea := 0 \<rparr>"

section \<open>Example databases\<close>

text \<open>
  Operator 3582 was assigned task 2 and now works on task 1, whose thresholds are
  11 s (excellent) and 15 s (slow). Times are microseconds after midnight of day 0.
\<close>

definition db_inicial :: db where
  "db_inicial =
     \<lparr> Tareas = [\<lparr> t_id_tarea = 1, tiempo_estandar_s = 13, umbral_excelente_s = 11,
                   umbral_lento_s = 15 \<rparr>,
                 \<lparr> t_id_tarea = 2, tiempo_estandar_s = 40, umbral_excelente_s = 35,
                   umbral_lento_s = 50 \<rparr>],
       Operario_Tarea = [\<lparr> ot_id_operario = 3582, ot_id_tarea = 2, activa = False \<rparr>,
                         \<lparr> ot_id_operario = 3582, ot_id_tarea = 1, activa = True \<rparr>],
       Registros_Ciclos = [], Registros_Pausas = [],
       seq_id_registro = 1, seq_id_pausa = 1 \<rparr>"

definition ciclo_previo :: registro_ciclo where
  "ciclo_previo =
     \<lparr> id_registro = 1, rc_id_operario = 3582, rc_id_tarea = 1, marca_tiempo = 100000000,
       tiempo_ciclo_s = None, promedio_5_ciclos = None, estado = ''Normal'',
       fecha_registro = 0 \<rparr>"

text \<open>A previous cycle at 100 s and a closed pause of 5 s that started at 103 s.\<close>

definition db_pausa_cerrada :: db where
  "db_pausa_cerrada =
     db_inicial \<lparr> Registros_Ciclos := [ciclo_previo],
                  Registros_Pausas :=
                    [\<lparr> id_pausa = 1, rp_id_operario = 3582, hora_inicio_pausa = 103000000,
                       hora_fin_pausa = Some 108000000, motivo = Some ''Descanso'',
                       duracion_s = Some 5, finalizada = True \<rparr>],
                  seq_id_registro := 2, seq_id_pausa := 2 \<rparr>"

text \<open>A previous cycle at 100 s and a pause opened at 102 s that is still open.\<close>

definition pausa_abierta :: registro_pausa where
  "pausa_abierta =
     \<lparr> id_pausa = 1, rp_id_operario = 3582, hora_inicio_pausa = 102000000,
       hora_fin_pausa = None, motivo = None, duracion_s = None, finalizada = False \<rparr>"

definition db_pausa_abierta :: db where
  "db_pausa_abierta =
     db_inicial \<lparr> Registros_Ciclos := [ciclo_previo], Registros_Pausas := [pausa_abierta],
                  seq_id_registro := 2, seq_id_pausa := 2 \<rparr>"

text \<open>
  A pause opened at 95 s, then a cycle recorded at 100 s while the pause is open: the
  pause is still open at 120 s.
\<close>

definition pausa_abierta_previa :: registro_pausa where
  "pausa_abierta_previa =
     \<lparr> id_pausa = 1, rp_id_operario = 3582, hora_inicio_pausa = 95000000,
       hora_fin_pausa = None, motivo = None, duracion_s = None, finalizada = False \<rparr>"

definition db_pausa_abierta_previa :: db where
  "db_pausa_abierta_previa =
     db_inicial \<lparr> Registros_Ciclos := [ciclo_previo],
                  Registros_Pausas := [pausa_abierta_previa],
                  seq_id_registro := 2, seq_id_pausa := 2 \<rparr>"

text \<open>
  Six cycles of one day, the first without a duration, the next two recorded under the
  operator's former task 2.
\<close>

definition fila_ciclo :: "int \<Rightarrow> int \<Rightarrow> timestamp \<Rightarrow> rat option \<Rightarrow> registro_ciclo" where
  "fila_ciclo i tar ts dur =
     \<lparr> id_registro = i, rc_id_operario = 3582, rc_id_tarea = tar, marca_tiempo = ts,
       tiempo_ciclo_s = dur, promedio_5_ciclos = None, estado = ''Normal'',
       fecha_registro = 0 \<rparr>"

definition historial :: "int \<Rightarrow> registro_ciclo list" where
  "historial tar =
     [fila_ciclo 1 tar 10000000 None, fila_ciclo 2 tar 22000000 (Some 12),
      fila_ciclo 3 tar 33000000 (Some 11), fila_ciclo 4 1 46000000 (Some 13),
      fila_ciclo 5 1 60000000 (Some 14), fila_ciclo 6 1 70000000 (Some 10)]"

definition db_historial :: "int \<Rightarrow> db" where
  "db_historial tar = db_inicial \<lparr> Registros_Ciclos := historial tar, seq_id_registro := 7 \<rparr>"


section \<open>Basic facts about the primitives and the handlers\<close>

lemma fetchone_simps [simp]: "fetchone [] = None" "fetchone (r # rs) = Some r"
  by (simp_all add: fetchone_def)

lemma fetchone_None_iff: "fetchone rows = None \<longleftrightarrow> rows = []"
  by (cases rows) simp_all

lemma get_db_connection_simps [simp]:
  "get_db_connection d (Inl e) = (Inl e, d)"
  "get_db_connection d (Inr (r, d')) = (Inr r, d')"
  by (simp_all add: get_db_connection_def)

lemma calcular_promedio_None [simp]: "calcular_promedio_5_ciclos None us = None"
  by (simp add: calcular_promedio_5_ciclos_def)

lemma calcular_promedio_Some:
  "calcular_promedio_5_ciclos (Some t) us =
     Some (float_truediv (py_sum (t # us)) (of_nat (length (t # us))))"
  by (simp add: calcular_promedio_5_ciclos_def Let_def)


lemma py_sum_Nil [simp]: "py_sum [] = 0"
  by (simp add: py_sum_def)

lemma py_sum_snoc [simp]: "py_sum (xs @ [x]) = float_add (py_sum xs) x"
  by (simp add: py_sum_def)


text \<open>
  \<open>py_float\<close> is a rounding: the result is within half a quantum of the argument, and
  within the relative error 2 to the power -53 for arguments in the normal range.
\<close>

lemma bit_length_bounds:
  "0 < n \<Longrightarrow> 2 ^ (bit_length n - 1) \<le> n \<and> n < 2 ^ bit_length n"
proof (induction n rule: bit_length.induct)
  case (1 n)
  show ?case
  proof (cases "n div 2 = 0")
    case True
    with 1 have "n = 1" by presburger
    then show ?thesis
      by (simp add: bit_length.simps [of "Suc 0"] bit_length.simps [of 0])
  next
    case False
    then have pos: "0 < n div 2" by simp
    from 1 have n0: "n \<noteq> 0" by simp
    from "1.IH" [OF n0 pos]
    have lo: "2 ^ (bit_length (n div 2) - 1) \<le> n div 2"
      and hi: "n div 2 < 2 ^ bit_length (n div 2)" by simp_all
    have bl: "bit_length n = Suc (bit_length (n div 2))"
      using n0 by (simp add: bit_length.simps [of n])
    have blpos: "0 < bit_length (n div 2)"
      using pos by (simp add: bit_length.simps [of "n div 2"])
    have "2 ^ (bit_length n - 1) = 2 * 2 ^ (bit_length (n div 2) - 1)"
      using blpos by (simp add: bl flip: power_Suc)
    also have "\<dots> \<le> 2 * (n div 2)" using lo by simp
    also have "\<dots> \<le> n" by simp
    finally have a: "2 ^ (bit_length n - 1) \<le> n" .
    have "n < 2 * (n div 2) + 2" by presburger
    also have "\<dots> \<le> 2 * 2 ^ bit_length (n div 2)" using hi by simp
    finally have b: "n < 2 ^ bit_length n" by (simp add: bl)
    from a b show ?thesis by blast
  qed
qed

lemma pow2_pos [simp]: "0 < pow2 k"
  by (simp add: pow2_def)

lemma pow2_Suc: "pow2 (k + 1) = 2 * pow2 k"
proof (cases "0 \<le> k")
  case True
  then show ?thesis by (simp add: pow2_def nat_add_distrib)
next
  case False
  then have "nat (- k) = Suc (nat (- (k + 1)))" by simp
  with False show ?thesis
    by (cases "k = -1") (simp_all add: pow2_def)
qed

lemma round_half_even_error: "\<bar>of_int (round_half_even y) - y\<bar> \<le> 1 / 2"
proof -
  have "of_int \<lfloor>y\<rfloor> \<le> y" and "y < of_int \<lfloor>y\<rfloor> + 1"
    by linarith+
  then show ?thesis
    by (auto simp: round_half_even_def Let_def abs_le_iff)
qed

lemma log2_floor_bounds:
  assumes "0 < x"
  shows "pow2 (log2_floor x) \<le> x \<and> x < pow2 (log2_floor x + 1)"
proof (cases "1 \<le> x")
  case True
  let ?n = "nat \<lfloor>x\<rfloor>"
  from True have n: "0 < ?n" by simp
  from bit_length_bounds [OF n]
  have lo: "2 ^ (bit_length ?n - 1) \<le> ?n" and hi: "?n < 2 ^ bit_length ?n" by simp_all
  from n have blpos: "0 < bit_length ?n"
    by (simp add: bit_length.simps [of ?n])
  have nx: "rat_of_nat ?n \<le> x" using True by (simp add: of_nat_nat)
  have xn: "x < rat_of_nat ?n + 1" using True by (simp add: of_nat_nat) linarith
  have e: "log2_floor x = int (bit_length ?n) - 1"
    using True by (simp add: log2_floor_def)
  have p1: "pow2 (log2_floor x) = 2 ^ (bit_length ?n - 1)"
    using blpos by (simp add: e pow2_def nat_diff_distrib')
  have p2: "pow2 (log2_floor x + 1) = 2 ^ bit_length ?n"
    by (simp add: e pow2_def)
  have "(2::rat) ^ (bit_length ?n - 1) \<le> rat_of_nat ?n"
    using lo by (metis of_nat_le_iff of_nat_numeral of_nat_power)
  from this nx have "(2::rat) ^ (bit_length ?n - 1) \<le> x" by (rule order_trans)
  then have a: "pow2 (log2_floor x) \<le> x" by (simp only: p1)
  from hi have "Suc ?n \<le> 2 ^ bit_length ?n" by (rule Suc_leI)
  then have "rat_of_nat (Suc ?n) \<le> 2 ^ bit_length ?n"
    by (metis of_nat_le_iff of_nat_numeral of_nat_power)
  then have "rat_of_nat ?n + 1 \<le> 2 ^ bit_length ?n" by (simp only: of_nat_Suc add.commute)
  with xn have "x < 2 ^ bit_length ?n" by (rule less_le_trans)
  then have b: "x < pow2 (log2_floor x + 1)" by (simp only: p2)
  from a b show ?thesis by blast
next
  case False
  with assms have x1: "x < 1" and x0: "0 < x" by simp_all
  let ?y = "1 / x"
  let ?m = "\<lceil>?y\<rceil>"
  let ?n = "nat (?m - 1)"
  from x0 x1 have y1: "1 < ?y" by simp
  then have m2: "2 \<le> ?m" by linarith
  then have n: "0 < ?n" by simp
  from bit_length_bounds [OF n]
  have lo: "2 ^ (bit_length ?n - 1) \<le> ?n" and hi: "?n < 2 ^ bit_length ?n" by simp_all
  from n have blpos: "0 < bit_length ?n"
    by (simp add: bit_length.simps [of ?n])
  have e: "log2_floor x = - int (bit_length ?n)"
    using False by (simp add: log2_floor_def)
  have ym: "?y \<le> of_int ?m" by linarith
  have my: "of_int ?m - 1 < ?y" by linarith
  from m2 have "0 \<le> ?m - 1" by linarith
  then have "int ?n = ?m - 1" by (rule nat_0_le)
  then have "rat_of_int (int ?n) = rat_of_int (?m - 1)" by (rule arg_cong)
  then have nm: "rat_of_nat ?n = of_int ?m - 1"
    by (simp only: of_int_of_nat_eq of_int_diff of_int_1)
  from hi have "Suc ?n \<le> 2 ^ bit_length ?n" by (rule Suc_leI)
  then have "rat_of_nat (Suc ?n) \<le> 2 ^ bit_length ?n"
    by (metis of_nat_le_iff of_nat_numeral of_nat_power)
  then have "rat_of_nat ?n + 1 \<le> 2 ^ bit_length ?n"
    by (simp only: of_nat_Suc add.commute)
  with nm ym have yhi: "?y \<le> 2 ^ bit_length ?n" by linarith
  have "(2::rat) ^ (bit_length ?n - 1) \<le> rat_of_nat ?n"
    using lo by (metis of_nat_le_iff of_nat_numeral of_nat_power)
  with nm my have ylo: "2 ^ (bit_length ?n - 1) < ?y" by linarith
  have p1: "pow2 (log2_floor x) = 1 / 2 ^ bit_length ?n"
    using blpos by (simp add: e pow2_def)
  have p2: "pow2 (log2_floor x + 1) = 1 / 2 ^ (bit_length ?n - 1)"
  proof (cases "bit_length ?n = 1")
    case True
    then show ?thesis by (simp add: e pow2_def)
  next
    case False
    with blpos have "1 < bit_length ?n" by simp
    then have "nat (int (bit_length ?n) - 1) = bit_length ?n - 1" by simp
    with \<open>1 < bit_length ?n\<close> show ?thesis by (simp add: e pow2_def)
  qed
  from yhi x0 have a: "1 / 2 ^ bit_length ?n \<le> x"
    by (simp add: field_simps)
  from ylo x0 have b: "x < 1 / 2 ^ (bit_length ?n - 1)"
    by (simp add: field_simps)
  from a b show ?thesis by (simp add: p1 p2)
qed

lemma py_float_error:
  "\<bar>py_float x - x\<bar> \<le> pow2 (max (log2_floor \<bar>x\<bar> - 52) (- 1074)) / 2"
proof (cases "x = 0")
  case True
  then show ?thesis by (simp add: py_float_def less_imp_le)
next
  case False
  let ?q = "pow2 (max (log2_floor \<bar>x\<bar> - 52) (- 1074))"
  have q: "0 < ?q" by simp
  then have q0: "?q \<noteq> 0" by (metis less_irrefl)
  have "py_float x - x = (of_int (round_half_even (x / ?q)) - x / ?q) * ?q"
    using False q0 by (simp add: py_float_def Let_def field_simps)
  then have "\<bar>py_float x - x\<bar> = \<bar>of_int (round_half_even (x / ?q)) - x / ?q\<bar> * ?q"
    by (simp only: abs_mult abs_of_pos [OF q])
  also have "\<dots> \<le> (1 / 2) * ?q"
    using round_half_even_error [of "x / ?q"] less_imp_le [OF q] by (rule mult_right_mono)
  finally show ?thesis by simp
qed


lemma pow2_power_int: "pow2 k = 2 powi k"
  by (simp add: pow2_def power_int_def inverse_eq_divide power_one_over)

lemma py_float_relative_error:
  assumes "pow2 (- 1022) \<le> \<bar>x\<bar>"
  shows "\<bar>py_float x - x\<bar> \<le> \<bar>x\<bar> / 2 ^ 53"
proof -
  let ?e = "log2_floor \<bar>x\<bar>"
  have "0 < pow2 (- 1022)" by (rule pow2_pos)
  with assms have pos: "0 < \<bar>x\<bar>" by linarith
  from log2_floor_bounds [OF pos]
  have lo: "pow2 ?e \<le> \<bar>x\<bar>" and hi: "\<bar>x\<bar> < pow2 (?e + 1)" by simp_all
  from assms hi have "pow2 (- 1022) < pow2 (?e + 1)" by (rule le_less_trans)
  then have "(2::rat) powi (- 1022) < 2 powi (?e + 1)"
    by (simp only: pow2_power_int)
  have "- 1022 < ?e + 1"
  proof (rule ccontr)
    assume "\<not> - 1022 < ?e + 1"
    then have "?e + 1 \<le> - 1022" by simp
    then have "(2::rat) powi (?e + 1) \<le> 2 powi (- 1022)"
      by (rule power_int_increasing) simp
    with \<open>(2::rat) powi (- 1022) < 2 powi (?e + 1)\<close> show False by simp
  qed
  then have m: "max (?e - 52) (- 1074) = ?e - 52" by simp
  have "pow2 (?e - 52) = pow2 ?e / 2 ^ 52"
    by (simp add: pow2_power_int power_int_diff)
  with py_float_error [of x] have "\<bar>py_float x - x\<bar> \<le> pow2 ?e / 2 ^ 52 / 2"
    by (simp only: m)
  also have "\<dots> = pow2 ?e / 2 ^ 53" by simp
  also have "\<dots> \<le> \<bar>x\<bar> / 2 ^ 53" using lo by (simp add: divide_right_mono)
  finally show ?thesis .
qed

lemma registrar_ciclo_None:
  "tarea_info d id_op = None \<Longrightarrow>
   registrar_ciclo d ahora hoy id_op =
     (Inl (HTTPException 404
            (''Operario '' @ str_int id_op @ '' no encontrado o sin tarea asignada'')), d)"
  by (simp add: registrar_ciclo_def)

lemma registrar_ciclo_Some:
  assumes "tarea_info d id_op = Some (ot, t)"
  shows "\<exists>resp d'. registrar_ciclo d ahora hoy id_op = (Inr resp, d')
           \<and> resp_tiempo_ciclo_s resp = calcular_tiempo_ciclo_s d ahora id_op
           \<and> resp_promedio_5_ciclos resp =
               calcular_promedio_5_ciclos (calcular_tiempo_ciclo_s d ahora id_op)
                 (ultimos_ciclos d hoy id_op)
           \<and> resp_estado resp =
               determinar_estado (resp_promedio_5_ciclos resp)
                 (umbral_excelente_s t) (umbral_lento_s t)
           \<and> resp_id_registro resp = seq_id_registro d
           \<and> Registros_Ciclos d' = Registros_Ciclos d @
               [\<lparr> id_registro = seq_id_registro d, rc_id_operario = id_op,
                  rc_id_tarea = ot_id_tarea ot, marca_tiempo = ahora,
                  tiempo_ciclo_s = resp_tiempo_ciclo_s resp,
                  promedio_5_ciclos = resp_promedio_5_ciclos resp,
                  estado = resp_estado resp, fecha_registro = date_of ahora \<rparr>]
           \<and> Registros_Pausas d' = Registros_Pausas d"
  using assms by (simp add: registrar_ciclo_def Let_def)

lemma registrar_ciclo_Inr_tarea:
  assumes "registrar_ciclo d ahora hoy id_op = (Inr resp, d')"
  shows "tarea_info d id_op \<noteq> None"
  using assms by (auto simp: registrar_ciclo_def split: option.splits)

lemma order_by_desc_Nil_iff [simp]: "order_by_desc k rows = [] \<longleftrightarrow> rows = []"
  by (metis length_sort order_by_desc_def length_0_conv)

lemma set_order_by_desc [simp]: "set (order_by_desc k rows) = set rows"
  by (simp add: order_by_desc_def)

lemma mset_order_by_desc [simp]: "mset (order_by_desc k rows) = mset rows"
  by (simp add: order_by_desc_def)

lemma length_order_by_desc [simp]: "length (order_by_desc k rows) = length rows"
  by (simp add: order_by_desc_def)

lemma order_by_desc_take_drop:
  assumes "x \<in> set (take n (order_by_desc k rows))"
      and "y \<in> set (drop n (order_by_desc k rows))"
  shows "k y \<le> k x"
proof -
  let ?ys = "order_by_desc k rows"
  have "sorted (map (\<lambda>r. - k r) ?ys)"
    by (simp add: order_by_desc_def)
  then have "sorted (map (\<lambda>r. - k r) (take n ?ys) @ map (\<lambda>r. - k r) (drop n ?ys))"
    by (simp flip: map_append)
  then have "\<forall>a \<in> set (take n ?ys). \<forall>b \<in> set (drop n ?ys). - k a \<le> - k b"
    by (simp add: sorted_append)
  with assms show ?thesis by fastforce
qed

lemma order_by_desc_hd_max:
  assumes "order_by_desc k rows = r # rs" and "y \<in> set rows"
  shows "k y \<le> k r"
proof (cases "y \<in> set (take 1 (order_by_desc k rows))")
  case True
  with assms show ?thesis by simp
next
  case False
  have "y \<in> set (order_by_desc k rows)" using assms(2) by simp
  then have "y \<in> set (take 1 (order_by_desc k rows)) \<union> set (drop 1 (order_by_desc k rows))"
    by (metis append_take_drop_id set_append)
  with False have "y \<in> set (drop 1 (order_by_desc k rows))" by blast
  moreover have "r \<in> set (take 1 (order_by_desc k rows))" using assms(1) by simp
  ultimately show ?thesis by (rule order_by_desc_take_drop [rotated])
qed

lemma ultimo_ciclo_None_iff:
  "ultimo_ciclo d id_op = None \<longleftrightarrow>
   (\<forall>r \<in> set (Registros_Ciclos d). rc_id_operario r \<noteq> id_op)"
  by (auto simp: ultimo_ciclo_def fetchone_None_iff take_map filter_empty_conv
      simp flip: take_map)

lemma ultimo_ciclo_Some:
  assumes "r0 \<in> set (Registros_Ciclos d)" and "rc_id_operario r0 = id_op"
      and "\<forall>r \<in> set (Registros_Ciclos d). rc_id_operario r = id_op \<longrightarrow>
             marca_tiempo r \<le> marca_tiempo r0"
  shows "ultimo_ciclo d id_op = Some (marca_tiempo r0)"
proof -
  let ?xs = "filter (\<lambda>r. rc_id_operario r = id_op) (Registros_Ciclos d)"
  from assms have in_xs: "r0 \<in> set ?xs" by simp
  then have "?xs \<noteq> []" by (metis empty_iff empty_set)
  then have "order_by_desc marca_tiempo ?xs \<noteq> []" by simp
  then obtain r rs where ys: "order_by_desc marca_tiempo ?xs = r # rs"
    by (cases "order_by_desc marca_tiempo ?xs") auto
  have "r \<in> set (order_by_desc marca_tiempo ?xs)" by (simp add: ys)
  then have "r \<in> set ?xs" by simp
  with assms(3) have "marca_tiempo r \<le> marca_tiempo r0" by simp
  moreover from ys in_xs have "marca_tiempo r0 \<le> marca_tiempo r"
    by (rule order_by_desc_hd_max)
  ultimately show ?thesis by (simp add: ultimo_ciclo_def ys)
qed

lemma tarea_info_db_inicial:
  "tarea_info db_inicial 3582 =
     Some (\<lparr> ot_id_operario = 3582, ot_id_tarea = 1, activa = True \<rparr>,
           \<lparr> t_id_tarea = 1, tiempo_estandar_s = 13, umbral_excelente_s = 11,
             umbral_lento_s = 15 \<rparr>)"
  by (simp add: tarea_info_def db_inicial_def)

section \<open>First cycle of an operator\<close>

text \<open>
  C9. When the operator has no row in \<^verbatim>\<open>Registros_Ciclos\<close>, so that there is no previous
  cycle timestamp, the request (of an operator with an active task) succeeds and returns
  neither a duration nor an average.
\<close>

theorem C9_first_cycle_unknown:
  assumes "tarea_info d id_op = Some (ot, t)"
      and "\<forall>r \<in> set (Registros_Ciclos d). rc_id_operario r \<noteq> id_op"
  shows "\<exists>resp d'. registrar_ciclo d ahora hoy id_op = (Inr resp, d')
           \<and> resp_tiempo_ciclo_s resp = None \<and> resp_promedio_5_ciclos resp = None"
proof -
  from assms(2) have "ultimo_ciclo d id_op = None"
    by (simp add: ultimo_ciclo_None_iff)
  then have "calcular_tiempo_ciclo_s d ahora id_op = None"
    by (simp add: calcular_tiempo_ciclo_s_def)
  with registrar_ciclo_Some [OF assms(1), of ahora hoy] show ?thesis
    by auto
qed

theorem C9_first_cycle_unknown_witness:
  "\<exists>resp d'. registrar_ciclo db_inicial 100000000 0 3582 = (Inr resp, d')
           \<and> resp_tiempo_ciclo_s resp = None \<and> resp_promedio_5_ciclos resp = None"
proof -
  have "\<forall>r \<in> set (Registros_Ciclos db_inicial). rc_id_operario r \<noteq> 3582"
    by (simp add: db_inicial_def)
  from C9_first_cycle_unknown [OF tarea_info_db_inicial this] show ?thesis .
qed

section \<open>Cycle duration and pauses\<close>

lemma tiempo_total_pausas_eq:
  "tiempo_total_pausas d id_op desde hasta = segundos_pausas_cerradas d id_op desde hasta"
  by (simp add: tiempo_total_pausas_def segundos_pausas_cerradas_def coalesce_sum_def
      pausas_en_periodo_def comp_def sum_list_map_filter' cong: if_cong)

lemma pausas_sin_finalizar_eq_0_iff:
  "pausas_sin_finalizar d id_op desde hasta = 0 \<longleftrightarrow>
   (\<forall>p \<in> set (Registros_Pausas d).
      rp_id_operario p = id_op \<and> \<not> finalizada p \<longrightarrow>
      \<not> (desde < hora_inicio_pausa p \<and> hora_inicio_pausa p < hasta))"
  by (auto simp: pausas_sin_finalizar_def pausas_en_periodo_def filter_empty_conv)

lemma calcular_tiempo_ciclo_s_Some:
  assumes "ultimo_ciclo d id_op = Some prev"
  shows "calcular_tiempo_ciclo_s d ahora id_op =
           (if pausas_sin_finalizar d id_op prev ahora > 0 then None
            else if total_seconds (ahora - prev)
                      - of_int (segundos_pausas_cerradas d id_op prev ahora) > 300
                    \<or> total_seconds (ahora - prev)
                      - of_int (segundos_pausas_cerradas d id_op prev ahora) < 0
                 then None
                 else Some (total_seconds (ahora - prev)
                      - of_int (segundos_pausas_cerradas d id_op prev ahora)))"
  using assms by (simp add: calcular_tiempo_ciclo_s_def Let_def tiempo_total_pausas_eq)


lemma tarea_info_ejemplos [simp]:
  "tarea_info db_pausa_cerrada 3582 = tarea_info db_inicial 3582"
  "tarea_info db_pausa_abierta 3582 = tarea_info db_inicial 3582"
  "tarea_info db_pausa_abierta_previa 3582 = tarea_info db_inicial 3582"
  "tarea_info (db_historial tar) 3582 = tarea_info db_inicial 3582"
  by (simp_all add: tarea_info_def db_pausa_cerrada_def db_pausa_abierta_def
      db_pausa_abierta_previa_def db_historial_def)


text \<open>
  C2, as the code has it. An open pause of the operator that started strictly between the
  previous cycle timestamp and now makes the duration, and with it the average, unknown,
  whatever the elapsed time.
\<close>

theorem C2_open_pause_started_in_window:
  assumes "tarea_info d id_op = Some (ot, t)"
      and "r0 \<in> set (Registros_Ciclos d)" and "rc_id_operario r0 = id_op"
      and "\<forall>r \<in> set (Registros_Ciclos d). rc_id_operario r = id_op \<longrightarrow>
             marca_tiempo r \<le> marca_tiempo r0"
      and "p \<in> set (Registros_Pausas d)" and "rp_id_operario p = id_op"
      and "\<not> finalizada p"
      and "marca_tiempo r0 < hora_inicio_pausa p" and "hora_inicio_pausa p < ahora"
  shows "\<exists>resp d'. registrar_ciclo d ahora hoy id_op = (Inr resp, d')
           \<and> resp_tiempo_ciclo_s resp = None \<and> resp_promedio_5_ciclos resp = None"
proof -
  have prev: "ultimo_ciclo d id_op = Some (marca_tiempo r0)"
    using assms(2-4) by (rule ultimo_ciclo_Some)
  have "pausas_sin_finalizar d id_op (marca_tiempo r0) ahora \<noteq> 0"
    using assms(5-9) unfolding pausas_sin_finalizar_eq_0_iff by blast
  then have "calcular_tiempo_ciclo_s d ahora id_op = None"
    by (simp add: calcular_tiempo_ciclo_s_Some [OF prev])
  with registrar_ciclo_Some [OF assms(1), of ahora hoy] show ?thesis
    by auto
qed

theorem C2_open_pause_started_in_window_witness:
  "\<exists>resp d'. registrar_ciclo db_pausa_abierta 120000000 0 3582 = (Inr resp, d')
      \<and> resp_tiempo_ciclo_s resp = None \<and> resp_promedio_5_ciclos resp = None"
proof -
  have ti: "tarea_info db_pausa_abierta 3582 =
     Some (\<lparr> ot_id_operario = 3582, ot_id_tarea = 1, activa = True \<rparr>,
           \<lparr> t_id_tarea = 1, tiempo_estandar_s = 13, umbral_excelente_s = 11,
             umbral_lento_s = 15 \<rparr>)"
    by (simp add: tarea_info_db_inicial)
  have mt: "marca_tiempo ciclo_previo = 100000000" "rc_id_operario ciclo_previo = 3582"
    by (simp_all add: ciclo_previo_def)
  have rows: "Registros_Ciclos db_pausa_abierta = [ciclo_previo]"
             "Registros_Pausas db_pausa_abierta = [pausa_abierta]"
    by (simp_all add: db_pausa_abierta_def)
  have h2: "ciclo_previo \<in> set (Registros_Ciclos db_pausa_abierta)"
    by (simp add: rows)
  have h4: "\<forall>r \<in> set (Registros_Ciclos db_pausa_abierta). rc_id_operario r = 3582 \<longrightarrow>
             marca_tiempo r \<le> marca_tiempo ciclo_previo"
    by (simp add: rows)
  have h5: "pausa_abierta \<in> set (Registros_Pausas db_pausa_abierta)"
    by (simp add: rows)
  have h6: "rp_id_operario pausa_abierta = 3582" "\<not> finalizada pausa_abierta"
     "marca_tiempo ciclo_previo < hora_inicio_pausa pausa_abierta"
     "hora_inicio_pausa pausa_abierta < 120000000"
    by (simp_all add: pausa_abierta_def mt)
  from C2_open_pause_started_in_window [OF ti h2 mt(2) h4 h5 h6, of 0]
  show ?thesis .
qed

lemma db_inicial_campos:
  "Registros_Ciclos db_inicial = []" "Registros_Pausas db_inicial = []"
  "seq_id_registro db_inicial = 1" "seq_id_pausa db_inicial = 1"
  by (simp_all add: db_inicial_def)

lemma ultimo_ciclo_previo:
  "Registros_Ciclos d = [ciclo_previo] \<Longrightarrow> ultimo_ciclo d 3582 = Some 100000000"
  by (simp add: ultimo_ciclo_def order_by_desc_def ciclo_previo_def)

text \<open>
  C2, as stated, asks this of every open pause that overlaps the window. An open pause
  that started before the previous cycle overlaps the whole window, and the queries of
  steps 2.1 and 2.2 do not see it: the operator opens a pause at 95 s, records a cycle at
  100 s and another at 120 s with the pause still open, and the second cycle gets the
  duration 20 s.
\<close>

theorem C2_open_pause_before_window_counterexample:
  "snd (registrar_ciclo
          (snd (registrar_pausa db_inicial 95000000
                  \<lparr> req_id_operario = 3582, req_accion = INICIO, req_motivo = None \<rparr>))
          100000000 0 3582) = db_pausa_abierta_previa
   \<and> pausa_abierta_previa \<in> set (Registros_Pausas db_pausa_abierta_previa)
   \<and> rp_id_operario pausa_abierta_previa = 3582
   \<and> \<not> finalizada pausa_abierta_previa
   \<and> hora_fin_pausa pausa_abierta_previa = None
   \<and> hora_inicio_pausa pausa_abierta_previa < 120000000
   \<and> ultimo_ciclo db_pausa_abierta_previa 3582 = Some 100000000
   \<and> map_sum id resp_tiempo_ciclo_s
        (fst (registrar_ciclo db_pausa_abierta_previa 120000000 0 3582)) = Inr (Some 20)"
proof -
  have rows: "Registros_Ciclos db_pausa_abierta_previa = [ciclo_previo]"
             "Registros_Pausas db_pausa_abierta_previa = [pausa_abierta_previa]"
    by (simp_all add: db_pausa_abierta_previa_def)
  have u: "ultimo_ciclo db_pausa_abierta_previa 3582 = Some 100000000"
    by (simp add: ultimo_ciclo_previo rows)
  have t: "calcular_tiempo_ciclo_s db_pausa_abierta_previa 120000000 3582 = Some 20"
    by (simp add: calcular_tiempo_ciclo_s_def u Let_def pausas_sin_finalizar_def
        tiempo_total_pausas_def pausas_en_periodo_def rows pausa_abierta_previa_def
        coalesce_sum_def total_seconds_def)
  have r: "map_sum id resp_tiempo_ciclo_s
        (fst (registrar_ciclo db_pausa_abierta_previa 120000000 0 3582)) = Inr (Some 20)"
    by (simp add: registrar_ciclo_def tarea_info_db_inicial Let_def t)
  have p: "snd (registrar_pausa db_inicial 95000000
                  \<lparr> req_id_operario = 3582, req_accion = INICIO, req_motivo = None \<rparr>)
           = db_inicial \<lparr> Registros_Pausas := [pausa_abierta_previa], seq_id_pausa := 2 \<rparr>"
    by (simp add: registrar_pausa_def pausas_abiertas_def db_inicial_def Let_def
        pausa_abierta_previa_def)
  have ti: "tarea_info (db_inicial \<lparr> Registros_Pausas := [pausa_abierta_previa],
                                     seq_id_pausa := 2 \<rparr>) 3582
            = tarea_info db_inicial 3582"
    by (simp add: tarea_info_def)
  have c: "calcular_tiempo_ciclo_s (db_inicial \<lparr> Registros_Pausas := [pausa_abierta_previa],
                                     seq_id_pausa := 2 \<rparr>) 100000000 3582 = None"
    by (simp add: calcular_tiempo_ciclo_s_def ultimo_ciclo_def db_inicial_def order_by_desc_def)
  have q: "snd (registrar_ciclo (db_inicial \<lparr> Registros_Pausas := [pausa_abierta_previa],
                                     seq_id_pausa := 2 \<rparr>) 100000000 0 3582)
           = db_pausa_abierta_previa"
    by (simp add: registrar_ciclo_def ti tarea_info_db_inicial Let_def c
        determinar_estado_def db_pausa_abierta_previa_def ciclo_previo_def date_of_def
        db_inicial_campos)
  show ?thesis
    by (simp add: p q u r rows) (simp add: pausa_abierta_previa_def)
qed

section \<open>Outlier guard\<close>

lemma calcular_tiempo_ciclo_s_rango:
  "calcular_tiempo_ciclo_s d ahora id_op = Some x \<Longrightarrow> 0 \<le> x \<and> x \<le> 300"
  by (auto simp: calcular_tiempo_ciclo_s_def Let_def split: option.splits if_splits)

lemma calcular_tiempo_ciclo_s_fuera_de_rango:
  assumes "ultimo_ciclo d id_op = Some prev"
      and "total_seconds (ahora - prev) - of_int (tiempo_total_pausas d id_op prev ahora) > 300
           \<or> total_seconds (ahora - prev) - of_int (tiempo_total_pausas d id_op prev ahora) < 0"
  shows "calcular_tiempo_ciclo_s d ahora id_op = None"
  using assms by (auto simp: calcular_tiempo_ciclo_s_def Let_def)

text \<open>
  C4. Whatever the database and the clock, a returned duration is absent or lies between
  0 and 300 seconds. A difference of elapsed time and closed pauses above 300 or below 0
  is returned and stored as absent, and then the average is absent too; the stored row
  carries the returned duration, so that step 3 of later requests skips it.
\<close>

theorem C4_duration_within_bounds:
  assumes "registrar_ciclo d ahora hoy id_op = (Inr resp, d')"
  shows "(case resp_tiempo_ciclo_s resp of
            None \<Rightarrow> resp_promedio_5_ciclos resp = None
          | Some x \<Rightarrow> 0 \<le> x \<and> x \<le> 300)
         \<and> (\<forall>prev. ultimo_ciclo d id_op = Some prev
               \<and> (total_seconds (ahora - prev)
                     - of_int (tiempo_total_pausas d id_op prev ahora) > 300
                  \<or> total_seconds (ahora - prev)
                     - of_int (tiempo_total_pausas d id_op prev ahora) < 0)
             \<longrightarrow> resp_tiempo_ciclo_s resp = None \<and> resp_promedio_5_ciclos resp = None)
         \<and> tiempo_ciclo_s (last (Registros_Ciclos d')) = resp_tiempo_ciclo_s resp"
proof -
  from assms obtain ot t where ti: "tarea_info d id_op = Some (ot, t)"
    using registrar_ciclo_Inr_tarea by fastforce
  from registrar_ciclo_Some [OF ti, of ahora hoy] assms
  have tiempo: "resp_tiempo_ciclo_s resp = calcular_tiempo_ciclo_s d ahora id_op"
   and prom: "resp_promedio_5_ciclos resp =
               calcular_promedio_5_ciclos (calcular_tiempo_ciclo_s d ahora id_op)
                 (ultimos_ciclos d hoy id_op)"
   and fila: "tiempo_ciclo_s (last (Registros_Ciclos d')) = resp_tiempo_ciclo_s resp"
    by auto
  have a: "case resp_tiempo_ciclo_s resp of
            None \<Rightarrow> resp_promedio_5_ciclos resp = None
          | Some x \<Rightarrow> 0 \<le> x \<and> x \<le> 300"
    using calcular_tiempo_ciclo_s_rango [of d ahora id_op]
    by (simp add: tiempo prom split: option.split)
  have b: "\<forall>prev. ultimo_ciclo d id_op = Some prev
               \<and> (total_seconds (ahora - prev)
                     - of_int (tiempo_total_pausas d id_op prev ahora) > 300
                  \<or> total_seconds (ahora - prev)
                     - of_int (tiempo_total_pausas d id_op prev ahora) < 0)
             \<longrightarrow> resp_tiempo_ciclo_s resp = None \<and> resp_promedio_5_ciclos resp = None"
    using calcular_tiempo_ciclo_s_fuera_de_rango [of d id_op _ ahora]
    by (auto simp: tiempo prom)
  from a b fila show ?thesis by blast
qed

lemma tarea_info_3582:
  "tarea_info db_pausa_cerrada 3582 =
     Some (\<lparr> ot_id_operario = 3582, ot_id_tarea = 1, activa = True \<rparr>,
           \<lparr> t_id_tarea = 1, tiempo_estandar_s = 13, umbral_excelente_s = 11,
             umbral_lento_s = 15 \<rparr>)"
  "tarea_info db_pausa_abierta 3582 =
     Some (\<lparr> ot_id_operario = 3582, ot_id_tarea = 1, activa = True \<rparr>,
           \<lparr> t_id_tarea = 1, tiempo_estandar_s = 13, umbral_excelente_s = 11,
             umbral_lento_s = 15 \<rparr>)"
  "tarea_info (db_historial tar) 3582 =
     Some (\<lparr> ot_id_operario = 3582, ot_id_tarea = 1, activa = True \<rparr>,
           \<lparr> t_id_tarea = 1, tiempo_estandar_s = 13, umbral_excelente_s = 11,
             umbral_lento_s = 15 \<rparr>)"
  by (simp_all add: tarea_info_db_inicial)

theorem C4_duration_within_bounds_witness:
  "\<exists>resp d'. registrar_ciclo db_pausa_cerrada 500000000 0 3582 = (Inr resp, d')
      \<and> ultimo_ciclo db_pausa_cerrada 3582 = Some 100000000
      \<and> total_seconds (500000000 - 100000000)
          - of_int (tiempo_total_pausas db_pausa_cerrada 3582 100000000 500000000) = 395
      \<and> resp_tiempo_ciclo_s resp = None \<and> resp_promedio_5_ciclos resp = None
      \<and> tiempo_ciclo_s (last (Registros_Ciclos d')) = None"
proof -
  obtain resp d' where r: "registrar_ciclo db_pausa_cerrada 500000000 0 3582 = (Inr resp, d')"
    using registrar_ciclo_Some [OF tarea_info_3582(1)] by blast
  have u: "ultimo_ciclo db_pausa_cerrada 3582 = Some 100000000"
    by (simp add: ultimo_ciclo_previo db_pausa_cerrada_def)
  have p: "total_seconds (500000000 - 100000000)
          - of_int (tiempo_total_pausas db_pausa_cerrada 3582 100000000 500000000) = 395"
    by (simp add: tiempo_total_pausas_eq segundos_pausas_cerradas_def db_pausa_cerrada_def
        total_seconds_def)
  from C4_duration_within_bounds [OF r] u p
  have "resp_tiempo_ciclo_s resp = None \<and> resp_promedio_5_ciclos resp = None
        \<and> tiempo_ciclo_s (last (Registros_Ciclos d')) = None"
    by simp
  with r u p show ?thesis by blast
qed

section \<open>Status classification\<close>

lemma determinar_estado_literal:
  "determinar_estado promedio ue ul \<in> {''Excelente'', ''Normal'', ''Lento''}"
  by (simp add: determinar_estado_def split: option.split)

lemma determinar_estado_mono:
  "a1 \<le> a2 \<Longrightarrow>
   rango_estado (determinar_estado (Some a1) ue ul)
     \<le> rango_estado (determinar_estado (Some a2) ue ul)"
  by (simp add: determinar_estado_def rango_estado_def)

text \<open>
  C5. The returned (and stored) status is a function of the returned average and of the
  thresholds of the operator's active task: Normal without an average; with an average,
  Excelente when it is at most the excellent threshold, otherwise Lento when it is at
  least the slow threshold, otherwise Normal. It is one of the three literals. With the
  thresholds 11 and 15 the averages 10.5, 13 and 16 are classified Excelente, Normal
  and Lento.
\<close>

theorem C5_status_from_average:
  assumes "tarea_info d id_op = Some (ot, t)"
  shows "(\<exists>resp d'. registrar_ciclo d ahora hoy id_op = (Inr resp, d')
            \<and> (case resp_promedio_5_ciclos resp of
                  None \<Rightarrow> resp_estado resp = ''Normal''
                | Some a \<Rightarrow>
                    resp_estado resp =
                      (if a \<le> umbral_excelente_s t then ''Excelente''
                       else if a \<ge> umbral_lento_s t then ''Lento'' else ''Normal''))
            \<and> resp_estado resp \<in> {''Excelente'', ''Normal'', ''Lento''}
            \<and> estado (last (Registros_Ciclos d')) = resp_estado resp)
         \<and> determinar_estado (Some (21 / 2)) 11 15 = ''Excelente''
         \<and> determinar_estado (Some 13) 11 15 = ''Normal''
         \<and> determinar_estado (Some 16) 11 15 = ''Lento''"
proof -
  from registrar_ciclo_Some [OF assms, of ahora hoy]
  obtain resp d' where r: "registrar_ciclo d ahora hoy id_op = (Inr resp, d')"
    and e: "resp_estado resp =
               determinar_estado (resp_promedio_5_ciclos resp)
                 (umbral_excelente_s t) (umbral_lento_s t)"
    and f: "estado (last (Registros_Ciclos d')) = resp_estado resp"
    by auto
  have c: "case resp_promedio_5_ciclos resp of
                  None \<Rightarrow> resp_estado resp = ''Normal''
                | Some a \<Rightarrow>
                    resp_estado resp =
                      (if a \<le> umbral_excelente_s t then ''Excelente''
                       else if a \<ge> umbral_lento_s t then ''Lento'' else ''Normal'')"
    by (simp add: e determinar_estado_def split: option.split)
  have l: "resp_estado resp \<in> {''Excelente'', ''Normal'', ''Lento''}"
    unfolding e by (rule determinar_estado_literal)
  have x: "determinar_estado (Some (21 / 2)) 11 15 = ''Excelente''"
          "determinar_estado (Some 13) 11 15 = ''Normal''"
          "determinar_estado (Some 16) 11 15 = ''Lento''"
    by (simp_all add: determinar_estado_def)
  from r c l f x show ?thesis by blast
qed

lemma calcular_tiempo_pausa_cerrada:
  "calcular_tiempo_ciclo_s db_pausa_cerrada 120000000 3582 = Some 15"
proof -
  have "ultimo_ciclo db_pausa_cerrada 3582 = Some 100000000"
    by (simp add: ultimo_ciclo_previo db_pausa_cerrada_def)
  then show ?thesis
    by (simp add: calcular_tiempo_ciclo_s_Some pausas_sin_finalizar_def pausas_en_periodo_def
        segundos_pausas_cerradas_def db_pausa_cerrada_def total_seconds_def)
qed

theorem C5_status_from_average_witness:
  "\<exists>resp d'. registrar_ciclo db_pausa_cerrada 120000000 0 3582 = (Inr resp, d')
      \<and> resp_promedio_5_ciclos resp = Some 15 \<and> resp_estado resp = ''Lento''"
proof -
  let ?t = "\<lparr> t_id_tarea = 1, tiempo_estandar_s = 13, umbral_excelente_s = 11,
              umbral_lento_s = 15 \<rparr>"
  from C5_status_from_average [OF tarea_info_3582(1), of 120000000 0]
  obtain resp d'
    where r: "registrar_ciclo db_pausa_cerrada 120000000 0 3582 = (Inr resp, d')"
    and c: "case resp_promedio_5_ciclos resp of
                  None \<Rightarrow> resp_estado resp = ''Normal''
                | Some a \<Rightarrow>
                    resp_estado resp =
                      (if a \<le> umbral_excelente_s ?t then ''Excelente''
                       else if a \<ge> umbral_lento_s ?t then ''Lento'' else ''Normal'')"
    by blast
  have "ultimos_ciclos db_pausa_cerrada 0 3582 = []"
    by (simp add: ultimos_ciclos_def ultimos_ciclos_rows_def db_pausa_cerrada_def
        ciclo_previo_def order_by_desc_def)
  moreover have "float_truediv (py_sum [15]) 1 = 15"
    by code_simp
  ultimately have p: "resp_promedio_5_ciclos resp = Some 15"
    using registrar_ciclo_Some [OF tarea_info_3582(1), of 120000000 0] r
    by (auto simp: calcular_tiempo_pausa_cerrada calcular_promedio_Some)
  with c have "resp_estado resp = ''Lento''" by simp
  with r p show ?thesis by blast
qed

text \<open>
  C6. For thresholds with excellent at most slow and two averages \<open>a1 < a2\<close>, the status
  of \<open>a1\<close> is not slower than the status of \<open>a2\<close> in the order Excelente, Normal, Lento.
\<close>

theorem C6_classification_monotonic:
  assumes "ue \<le> ul" and "a1 < a2"
  shows "rango_estado (determinar_estado (Some a1) ue ul)
           \<le> rango_estado (determinar_estado (Some a2) ue ul)"
  using assms(2) by (simp add: determinar_estado_mono)

theorem C6_classification_monotonic_witness:
  "(11::rat) \<le> 15 \<and> (21 / 2 :: rat) < 16
   \<and> rango_estado (determinar_estado (Some (21 / 2)) 11 15)
       \<le> rango_estado (determinar_estado (Some 16) 11 15)"
proof -
  have h: "(11::rat) \<le> 15" "(21 / 2 :: rat) < 16" by simp_all
  from C6_classification_monotonic [OF h] h show ?thesis by blast
qed

section \<open>Rolling average\<close>

lemma ultimos_ciclos_rows_eq:
  "ultimos_ciclos_rows d hoy id_op =
     take 4 (order_by_desc marca_tiempo (ciclos_validos_hoy d hoy id_op))"
  by (simp add: ultimos_ciclos_rows_def ciclos_validos_hoy_def)

lemma mset_take_subseteq: "mset (take n xs) \<subseteq># mset xs"
proof -
  have "mset xs = mset (take n xs) + mset (drop n xs)"
    by (metis append_take_drop_id mset_append)
  then show ?thesis by simp
qed

lemma mset_minus_take: "mset xs - mset (take n xs) = mset (drop n xs)"
proof -
  have "mset xs = mset (take n xs) + mset (drop n xs)"
    by (metis append_take_drop_id mset_append)
  then show ?thesis by simp
qed

lemma ultimos_ciclos_rows_validos:
  "mset (ultimos_ciclos_rows d hoy id_op) \<subseteq># mset (ciclos_validos_hoy d hoy id_op)"
  using mset_take_subseteq [of 4 "order_by_desc marca_tiempo (ciclos_validos_hoy d hoy id_op)"]
  by (simp add: ultimos_ciclos_rows_eq)

lemma ultimos_ciclos_rows_length:
  "length (ultimos_ciclos_rows d hoy id_op) = min 4 (length (ciclos_validos_hoy d hoy id_op))"
  by (simp add: ultimos_ciclos_rows_eq min.commute)

lemma ultimos_ciclos_rows_recientes:
  assumes "s \<in> set (ultimos_ciclos_rows d hoy id_op)"
      and "r \<in># mset (ciclos_validos_hoy d hoy id_op) - mset (ultimos_ciclos_rows d hoy id_op)"
  shows "marca_tiempo r \<le> marca_tiempo s"
proof -
  let ?ys = "order_by_desc marca_tiempo (ciclos_validos_hoy d hoy id_op)"
  have "mset (ciclos_validos_hoy d hoy id_op) - mset (take 4 ?ys) = mset ?ys - mset (take 4 ?ys)"
    by simp
  also have "\<dots> = mset (drop 4 ?ys)" by (rule mset_minus_take)
  finally have "r \<in> set (drop 4 ?ys)"
    using assms(2) by (simp add: ultimos_ciclos_rows_eq)
  moreover have "s \<in> set (take 4 ?ys)"
    using assms(1) by (simp add: ultimos_ciclos_rows_eq)
  ultimately show ?thesis by (rule order_by_desc_take_drop [rotated])
qed

lemma ultimos_ciclos_rows_orden:
  "sorted_wrt (\<lambda>a b. marca_tiempo b \<le> marca_tiempo a) (ultimos_ciclos_rows d hoy id_op)"
proof -
  let ?ys = "order_by_desc marca_tiempo (ciclos_validos_hoy d hoy id_op)"
  have "sorted (map (\<lambda>r. - marca_tiempo r) ?ys)"
    by (simp add: order_by_desc_def)
  then have "sorted_wrt (\<lambda>a b. - marca_tiempo a \<le> - marca_tiempo b) ?ys"
    by (simp only: sorted_map)
  then have "sorted_wrt (\<lambda>a b. marca_tiempo b \<le> marca_tiempo a) ?ys"
    by simp
  then show ?thesis
    by (simp add: ultimos_ciclos_rows_eq sorted_wrt_take)
qed

lemma ultimos_ciclos_eq:
  "ultimos_ciclos d hoy id_op =
     map py_float (List.map_filter tiempo_ciclo_s (ultimos_ciclos_rows d hoy id_op))"
proof -
  have "\<forall>r \<in> set (ultimos_ciclos_rows d hoy id_op). tiempo_ciclo_s r \<noteq> None"
    using set_mset_mono [OF ultimos_ciclos_rows_validos [of d hoy id_op]]
    by (auto simp: ciclos_validos_hoy_def)
  then have "filter (\<lambda>r. tiempo_ciclo_s r \<noteq> None) (ultimos_ciclos_rows d hoy id_op)
               = ultimos_ciclos_rows d hoy id_op"
    by (simp add: filter_id_conv)
  then show ?thesis
    by (simp add: ultimos_ciclos_def map_filter_def comp_def)
qed


text \<open>
  What a successful request returns, with the selection of step 3 described by its
  properties: \<open>sel\<close> are rows of the operator of the current date that have a duration,
  whatever their task, as many as there are but at most 4, none older than a row left
  out, the most recent first.
\<close>

lemma registrar_ciclo_promedio:
  assumes "tarea_info d id_op = Some (ot, t)"
  shows "\<exists>resp d' sel. registrar_ciclo d ahora hoy id_op = (Inr resp, d')
           \<and> mset sel \<subseteq># mset (ciclos_validos_hoy d hoy id_op)
           \<and> length sel = min 4 (length (ciclos_validos_hoy d hoy id_op))
           \<and> (\<forall>s \<in> set sel. \<forall>r \<in># mset (ciclos_validos_hoy d hoy id_op) - mset sel.
                 marca_tiempo r \<le> marca_tiempo s)
           \<and> sorted_wrt (\<lambda>a b. marca_tiempo b \<le> marca_tiempo a) sel
           \<and> resp_promedio_5_ciclos resp =
               (case resp_tiempo_ciclo_s resp of
                  None \<Rightarrow> None
                | Some x \<Rightarrow>
                    Some (float_truediv
                            (py_sum (x # map py_float (List.map_filter tiempo_ciclo_s sel)))
                            (of_nat (length (x # map py_float
                                                   (List.map_filter tiempo_ciclo_s sel))))))
           \<and> resp_estado resp =
               determinar_estado (resp_promedio_5_ciclos resp)
                 (umbral_excelente_s t) (umbral_lento_s t)"
proof -
  let ?sel = "ultimos_ciclos_rows d hoy id_op"
  from registrar_ciclo_Some [OF assms, of ahora hoy]
  obtain resp d' where r: "registrar_ciclo d ahora hoy id_op = (Inr resp, d')"
    and p: "resp_promedio_5_ciclos resp =
              calcular_promedio_5_ciclos (resp_tiempo_ciclo_s resp) (ultimos_ciclos d hoy id_op)"
    and e: "resp_estado resp =
               determinar_estado (resp_promedio_5_ciclos resp)
                 (umbral_excelente_s t) (umbral_lento_s t)"
    by auto
  have a: "resp_promedio_5_ciclos resp =
               (case resp_tiempo_ciclo_s resp of
                  None \<Rightarrow> None
                | Some x \<Rightarrow>
                    Some (float_truediv
                            (py_sum (x # map py_float (List.map_filter tiempo_ciclo_s ?sel)))
                            (of_nat (length (x # map py_float
                                                   (List.map_filter tiempo_ciclo_s ?sel))))))"
    by (simp add: p calcular_promedio_Some ultimos_ciclos_eq split: option.split)
  have b: "\<forall>s \<in> set ?sel. \<forall>r \<in># mset (ciclos_validos_hoy d hoy id_op) - mset ?sel.
             marca_tiempo r \<le> marca_tiempo s"
    using ultimos_ciclos_rows_recientes by blast
  show ?thesis
    by (intro exI [of _ resp] exI [of _ d'] exI [of _ ?sel] conjI)
       (rule r, rule ultimos_ciclos_rows_validos, rule ultimos_ciclos_rows_length, rule b,
        rule ultimos_ciclos_rows_orden, rule a, rule e)
qed


lemma py_float_enteros:
  "py_float 10 = 10" "py_float 11 = 11" "py_float 13 = 13" "py_float 14 = 14"
  by code_simp+

lemma historial_eval:
  "ultimo_ciclo (db_historial tar) 3582 = Some 70000000"
  "ultimos_ciclos (db_historial tar) 0 3582 = [10, 14, 13, 11]"
  "length (ciclos_validos_hoy (db_historial tar) 0 3582) = 5"
  by (simp_all add: ultimo_ciclo_def ultimos_ciclos_def ultimos_ciclos_rows_def
      ciclos_validos_hoy_def db_historial_def historial_def fila_ciclo_def order_by_desc_def
      py_float_enteros)

lemma calcular_tiempo_historial:
  "calcular_tiempo_ciclo_s (db_historial tar) 85000000 3582 = Some 15"
proof -
  have "Registros_Pausas (db_historial tar) = []"
    by (simp add: db_historial_def db_inicial_campos)
  then show ?thesis
    by (simp add: calcular_tiempo_ciclo_s_Some [OF historial_eval(1)] pausas_sin_finalizar_def
        pausas_en_periodo_def segundos_pausas_cerradas_def total_seconds_def)
qed

lemma promedio_historial:
  "float_truediv (py_sum [15, 10, 14, 13, 11]) 5 = 7093169413108531 / 562949953421312"
  by code_simp

lemma registrar_ciclo_historial:
  assumes "registrar_ciclo (db_historial tar) 85000000 0 3582 = (Inr resp, d')"
  shows "resp_tiempo_ciclo_s resp = Some 15"
    and "resp_promedio_5_ciclos resp = Some (7093169413108531 / 562949953421312)"
  using registrar_ciclo_Some [OF tarea_info_3582(3), of tar 85000000 0] assms
  by (auto simp: calcular_tiempo_historial historial_eval calcular_promedio_Some
      promedio_historial)









section \<open>The task of earlier cycles\<close>

lemma insort_key_map:
  "insort_key f (g x) (map g xs) = map g (insort_key (\<lambda>y. f (g y)) x xs)"
  by (induction xs) simp_all

lemma sort_key_map: "sort_key f (map g xs) = map g (sort_key (\<lambda>y. f (g y)) xs)"
  by (induction xs) (simp_all add: insort_key_map)

lemma order_by_desc_map:
  "order_by_desc k (map g xs) = map g (order_by_desc (\<lambda>y. k (g y)) xs)"
  by (simp add: order_by_desc_def sort_key_map)

lemma sin_tarea_campos [simp]:
  "rc_id_operario (sin_tarea r) = rc_id_operario r"
  "marca_tiempo (sin_tarea r) = marca_tiempo r"
  "tiempo_ciclo_s (sin_tarea r) = tiempo_ciclo_s r"
  "fecha_registro (sin_tarea r) = fecha_registro r"
  by (simp_all add: sin_tarea_def)

lemma ultimo_ciclo_sin_tarea:
  "ultimo_ciclo d id_op =
     fetchone (take 1 (map marca_tiempo
       (order_by_desc marca_tiempo
          (filter (\<lambda>r. rc_id_operario r = id_op) (map sin_tarea (Registros_Ciclos d))))))"
  by (simp add: ultimo_ciclo_def filter_map order_by_desc_map comp_def)

lemma ultimos_ciclos_sin_tarea:
  "ultimos_ciclos d hoy id_op =
     map (\<lambda>c. py_float (the (tiempo_ciclo_s c)))
       (take 4 (order_by_desc marca_tiempo
          (filter (\<lambda>r. rc_id_operario r = id_op \<and> tiempo_ciclo_s r \<noteq> None
                        \<and> fecha_registro r = hoy)
                  (map sin_tarea (Registros_Ciclos d)))))"
  by (simp add: ultimos_ciclos_def ultimos_ciclos_rows_def filter_map order_by_desc_map
      comp_def take_map)

lemma ciclos_hoy_sin_tarea:
  "length (filter (\<lambda>r. rc_id_operario r = id_op \<and> fecha_registro r = hoy) rows) =
   length (filter (\<lambda>r. rc_id_operario r = id_op \<and> fecha_registro r = hoy)
             (map sin_tarea rows))"
  by (simp add: filter_map comp_def)

lemma mset_subseteq_mismo_tamano:
  assumes "A \<subseteq># B" and "size A = size B"
  shows "A = B"
proof (rule ccontr)
  assume "A \<noteq> B"
  with assms(1) have "A \<subset># B" by (simp add: subset_mset.less_le)
  then have "size A < size B" by (rule mset_subset_size)
  with assms(2) show False by simp
qed

text \<open>
  C10. Replace the cycle rows of a database by rows \<open>rows2\<close> that differ from them in
  nothing but their task ids: the request returns the same response (duration, average,
  status, identifier and count) or raises the same error. On such rows the average is
  computed from rows \<open>sel\<close> picked among all rows of the operator of the current date
  that have a duration, with no condition on their task: the 4 most recent of them, and
  all of them when they are at most 4, so that a row recorded under a former task
  enters the average like any other. The status is the classification of that average
  against the thresholds of the operator's active task.
\<close>

theorem C10_average_ignores_task:
  assumes "map sin_tarea rows2 = map sin_tarea (Registros_Ciclos d)"
  shows "fst (registrar_ciclo (d \<lparr> Registros_Ciclos := rows2 \<rparr>) ahora hoy id_op)
           = fst (registrar_ciclo d ahora hoy id_op)
         \<and> (\<forall>ot t. tarea_info d id_op = Some (ot, t) \<longrightarrow>
              (\<exists>resp d' sel.
                 registrar_ciclo (d \<lparr> Registros_Ciclos := rows2 \<rparr>) ahora hoy id_op
                   = (Inr resp, d')
                 \<and> mset sel \<subseteq>#
                     mset (filter (\<lambda>r. rc_id_operario r = id_op \<and> tiempo_ciclo_s r \<noteq> None
                                        \<and> fecha_registro r = hoy) rows2)
                 \<and> length sel =
                     min 4 (length (filter (\<lambda>r. rc_id_operario r = id_op
                                                 \<and> tiempo_ciclo_s r \<noteq> None
                                                 \<and> fecha_registro r = hoy) rows2))
                 \<and> (\<forall>s \<in> set sel.
                      \<forall>r \<in># mset (filter (\<lambda>r. rc_id_operario r = id_op
                                                \<and> tiempo_ciclo_s r \<noteq> None
                                                \<and> fecha_registro r = hoy) rows2) - mset sel.
                        marca_tiempo r \<le> marca_tiempo s)
                 \<and> (length (filter (\<lambda>r. rc_id_operario r = id_op \<and> tiempo_ciclo_s r \<noteq> None
                                          \<and> fecha_registro r = hoy) rows2) \<le> 4
                    \<longrightarrow> mset sel =
                          mset (filter (\<lambda>r. rc_id_operario r = id_op
                                             \<and> tiempo_ciclo_s r \<noteq> None
                                             \<and> fecha_registro r = hoy) rows2))
                 \<and> (\<forall>x. resp_tiempo_ciclo_s resp = Some x \<longrightarrow>
                      resp_promedio_5_ciclos resp =
                        Some (float_truediv
                                (py_sum (x # map py_float
                                               (List.map_filter tiempo_ciclo_s sel)))
                                (of_nat (Suc (length sel)))))
                 \<and> resp_estado resp =
                     (case resp_promedio_5_ciclos resp of
                        None \<Rightarrow> ''Normal''
                      | Some a \<Rightarrow>
                          if a \<le> umbral_excelente_s t then ''Excelente''
                          else if a \<ge> umbral_lento_s t then ''Lento'' else ''Normal'')))"
proof -
  let ?d2 = "d \<lparr> Registros_Ciclos := rows2 \<rparr>"
  let ?val = "filter (\<lambda>r. rc_id_operario r = id_op \<and> tiempo_ciclo_s r \<noteq> None
                          \<and> fecha_registro r = hoy) rows2"
  have ti: "tarea_info ?d2 id_op = tarea_info d id_op"
    by (simp add: tarea_info_def)
  have "ultimo_ciclo ?d2 id_op = ultimo_ciclo d id_op"
    by (simp add: ultimo_ciclo_sin_tarea assms)
  then have tc: "calcular_tiempo_ciclo_s ?d2 ahora id_op = calcular_tiempo_ciclo_s d ahora id_op"
    by (simp add: calcular_tiempo_ciclo_s_def tiempo_total_pausas_def pausas_sin_finalizar_def
        pausas_en_periodo_def split: option.split)
  have uc: "ultimos_ciclos ?d2 hoy id_op = ultimos_ciclos d hoy id_op"
    by (simp add: ultimos_ciclos_sin_tarea assms)
  have ch: "length (filter (\<lambda>r. rc_id_operario r = id_op \<and> fecha_registro r = hoy) rows2) =
            length (filter (\<lambda>r. rc_id_operario r = id_op \<and> fecha_registro r = hoy)
                      (Registros_Ciclos d))"
    by (simp add: ciclos_hoy_sin_tarea [of id_op hoy rows2]
        ciclos_hoy_sin_tarea [of id_op hoy "Registros_Ciclos d"] assms)
  have a: "fst (registrar_ciclo ?d2 ahora hoy id_op) = fst (registrar_ciclo d ahora hoy id_op)"
    by (simp add: registrar_ciclo_def ti tc uc ch Let_def split: option.split)
  have val: "ciclos_validos_hoy ?d2 hoy id_op = ?val"
    by (simp add: ciclos_validos_hoy_def)
  have b: "\<exists>resp d' sel.
             registrar_ciclo ?d2 ahora hoy id_op = (Inr resp, d')
             \<and> mset sel \<subseteq># mset ?val
             \<and> length sel = min 4 (length ?val)
             \<and> (\<forall>s \<in> set sel. \<forall>r \<in># mset ?val - mset sel.
                   marca_tiempo r \<le> marca_tiempo s)
             \<and> (length ?val \<le> 4 \<longrightarrow> mset sel = mset ?val)
             \<and> (\<forall>x. resp_tiempo_ciclo_s resp = Some x \<longrightarrow>
                  resp_promedio_5_ciclos resp =
                    Some (float_truediv
                            (py_sum (x # map py_float (List.map_filter tiempo_ciclo_s sel)))
                            (of_nat (Suc (length sel)))))
             \<and> resp_estado resp =
                 (case resp_promedio_5_ciclos resp of
                    None \<Rightarrow> ''Normal''
                  | Some a \<Rightarrow>
                      if a \<le> umbral_excelente_s t then ''Excelente''
                      else if a \<ge> umbral_lento_s t then ''Lento'' else ''Normal'')"
    if t: "tarea_info d id_op = Some (ot, t)" for ot t
  proof -
    from t have "tarea_info ?d2 id_op = Some (ot, t)" by (simp add: ti)
    from registrar_ciclo_promedio [OF this, of ahora hoy]
    obtain resp d' sel
      where r: "registrar_ciclo ?d2 ahora hoy id_op = (Inr resp, d')"
        and v: "mset sel \<subseteq># mset ?val"
        and l: "length sel = min 4 (length ?val)"
        and m: "\<forall>s \<in> set sel. \<forall>r \<in># mset ?val - mset sel.
                   marca_tiempo r \<le> marca_tiempo s"
        and p: "resp_promedio_5_ciclos resp =
                 (case resp_tiempo_ciclo_s resp of
                    None \<Rightarrow> None
                  | Some x \<Rightarrow>
                      Some (float_truediv
                              (py_sum (x # map py_float (List.map_filter tiempo_ciclo_s sel)))
                              (of_nat (length (x # map py_float
                                                     (List.map_filter tiempo_ciclo_s sel))))))"
        and e: "resp_estado resp =
                 determinar_estado (resp_promedio_5_ciclos resp)
                   (umbral_excelente_s t) (umbral_lento_s t)"
      unfolding val by blast
    have todos: "length ?val \<le> 4 \<longrightarrow> mset sel = mset ?val"
    proof
      assume "length ?val \<le> 4"
      with l have "length sel = length ?val" by linarith
      then have "size (mset sel) = size (mset ?val)" by (simp only: size_mset)
      with v show "mset sel = mset ?val" by (rule mset_subseteq_mismo_tamano)
    qed
    have "\<forall>r \<in> set sel. tiempo_ciclo_s r \<noteq> None"
      using set_mset_mono [OF v] by auto
    then have "filter (\<lambda>r. tiempo_ciclo_s r \<noteq> None) sel = sel"
      by (simp add: filter_id_conv)
    then have len: "length (List.map_filter tiempo_ciclo_s sel) = length sel"
      by (simp add: map_filter_def)
    have avg: "\<forall>x. resp_tiempo_ciclo_s resp = Some x \<longrightarrow>
                  resp_promedio_5_ciclos resp =
                    Some (float_truediv
                            (py_sum (x # map py_float (List.map_filter tiempo_ciclo_s sel)))
                            (of_nat (Suc (length sel))))"
      by (simp add: p len)
    have est: "resp_estado resp =
                 (case resp_promedio_5_ciclos resp of
                    None \<Rightarrow> ''Normal''
                  | Some a \<Rightarrow>
                      if a \<le> umbral_excelente_s t then ''Excelente''
                      else if a \<ge> umbral_lento_s t then ''Lento'' else ''Normal'')"
      by (simp add: e determinar_estado_def split: option.split)
    show ?thesis
      by (intro exI [of _ resp] exI [of _ d'] exI [of _ sel] conjI)
         (rule r, rule v, rule l, rule m, rule todos, rule avg, rule est)
  qed
  show ?thesis
  proof (intro conjI allI impI)
    show "fst (registrar_ciclo ?d2 ahora hoy id_op) = fst (registrar_ciclo d ahora hoy id_op)"
      by (rule a)
  next
    fix ot t
    assume "tarea_info d id_op = Some (ot, t)"
    then show "\<exists>resp d' sel.
             registrar_ciclo ?d2 ahora hoy id_op = (Inr resp, d')
             \<and> mset sel \<subseteq># mset ?val
             \<and> length sel = min 4 (length ?val)
             \<and> (\<forall>s \<in> set sel. \<forall>r \<in># mset ?val - mset sel.
                   marca_tiempo r \<le> marca_tiempo s)
             \<and> (length ?val \<le> 4 \<longrightarrow> mset sel = mset ?val)
             \<and> (\<forall>x. resp_tiempo_ciclo_s resp = Some x \<longrightarrow>
                  resp_promedio_5_ciclos resp =
                    Some (float_truediv
                            (py_sum (x # map py_float (List.map_filter tiempo_ciclo_s sel)))
                            (of_nat (Suc (length sel)))))
             \<and> resp_estado resp =
                 (case resp_promedio_5_ciclos resp of
                    None \<Rightarrow> ''Normal''
                  | Some a \<Rightarrow>
                      if a \<le> umbral_excelente_s t then ''Excelente''
                      else if a \<ge> umbral_lento_s t then ''Lento'' else ''Normal'')"
      by (rule b)
  qed
qed


theorem C10_average_ignores_task_witness:
  "historial 2 \<noteq> historial 1
   \<and> map sin_tarea (historial 2) = map sin_tarea (Registros_Ciclos (db_historial 1))
   \<and> fst (registrar_ciclo (db_historial 2) 85000000 0 3582)
       = fst (registrar_ciclo (db_historial 1) 85000000 0 3582)
   \<and> map rc_id_tarea (ultimos_ciclos_rows (db_historial 2) 0 3582) = [1, 1, 1, 2]
   \<and> (\<exists>resp d' (sel :: registro_ciclo list).
         registrar_ciclo (db_historial 2) 85000000 0 3582 = (Inr resp, d')
         \<and> length sel = 4
         \<and> resp_promedio_5_ciclos resp
             = Some (float_truediv
                       (py_sum (15 # map py_float (List.map_filter tiempo_ciclo_s sel))) 5)
         \<and> resp_promedio_5_ciclos resp = Some (float_truediv (py_sum [15, 10, 14, 13, 11]) 5)
         \<and> resp_estado resp = ''Normal'')
   \<and> determinar_estado (Some (float_truediv (py_sum [15, 10, 14, 13, 11]) 5)) 35 50
       = ''Excelente''"
proof -
  let ?t = "\<lparr> t_id_tarea = 1, tiempo_estandar_s = 13, umbral_excelente_s = 11,
              umbral_lento_s = 15 \<rparr>"
  let ?val = "filter (\<lambda>r. rc_id_operario r = 3582 \<and> tiempo_ciclo_s r \<noteq> None
                          \<and> fecha_registro r = 0) (historial 2)"
  have h: "map sin_tarea (historial 2) = map sin_tarea (Registros_Ciclos (db_historial 1))"
    by (simp add: db_historial_def historial_def fila_ciclo_def sin_tarea_def)
  have e: "db_historial 1 \<lparr> Registros_Ciclos := historial 2 \<rparr> = db_historial 2"
    by (simp add: db_historial_def)
  have n: "historial 2 \<noteq> historial 1"
    by (simp add: historial_def fila_ciclo_def)
  have u: "map rc_id_tarea (ultimos_ciclos_rows (db_historial 2) 0 3582) = [1, 1, 1, 2]"
    by (simp add: ultimos_ciclos_rows_def db_historial_def historial_def fila_ciclo_def
        order_by_desc_def)
  have lv: "length ?val = 5"
    by (simp add: historial_def fila_ciclo_def)
  note c10 = C10_average_ignores_task [OF h, of 85000000 0 3582, unfolded e]
  from c10 have eq: "fst (registrar_ciclo (db_historial 2) 85000000 0 3582)
                       = fst (registrar_ciclo (db_historial 1) 85000000 0 3582)"
    by (rule conjunct1)
  have otra: "determinar_estado (Some (float_truediv (py_sum [15, 10, 14, 13, 11]) 5)) 35 50
                = ''Excelente''"
    by (simp add: promedio_historial determinar_estado_def)
  have ex: "\<exists>resp d' (sel :: registro_ciclo list).
         registrar_ciclo (db_historial 2) 85000000 0 3582 = (Inr resp, d')
         \<and> length sel = 4
         \<and> resp_promedio_5_ciclos resp
             = Some (float_truediv
                       (py_sum (15 # map py_float (List.map_filter tiempo_ciclo_s sel))) 5)
         \<and> resp_promedio_5_ciclos resp = Some (float_truediv (py_sum [15, 10, 14, 13, 11]) 5)
         \<and> resp_estado resp = ''Normal''"
    using c10 [THEN conjunct2, rule_format, OF tarea_info_3582(3)]
  proof (elim exE conjE)
    fix resp d' and sel :: "registro_ciclo list"
    assume r: "registrar_ciclo (db_historial 2) 85000000 0 3582 = (Inr resp, d')"
      and l: "length sel = min 4 (length ?val)"
      and a: "\<forall>x. resp_tiempo_ciclo_s resp = Some x \<longrightarrow>
                resp_promedio_5_ciclos resp =
                  Some (float_truediv
                          (py_sum (x # map py_float (List.map_filter tiempo_ciclo_s sel)))
                          (of_nat (Suc (length sel))))"
      and s: "resp_estado resp =
                (case resp_promedio_5_ciclos resp of
                   None \<Rightarrow> ''Normal''
                 | Some a \<Rightarrow>
                     if a \<le> umbral_excelente_s ?t then ''Excelente''
                     else if a \<ge> umbral_lento_s ?t then ''Lento'' else ''Normal'')"
    from l lv have l4: "length sel = 4" by simp
    note x = registrar_ciclo_historial(1) [OF r]
    have p: "resp_promedio_5_ciclos resp
               = Some (float_truediv (py_sum [15, 10, 14, 13, 11]) 5)"
      using registrar_ciclo_historial(2) [OF r] by (simp add: promedio_historial)
    from a x l4 have p2: "resp_promedio_5_ciclos resp
               = Some (float_truediv
                         (py_sum (15 # map py_float (List.map_filter tiempo_ciclo_s sel))) 5)"
      by simp
    from s have est: "resp_estado resp = ''Normal''"
      by (simp add: p promedio_historial)
    show ?thesis
      by (intro exI [of _ resp] exI [of _ d'] exI [of _ sel] conjI)
         (rule r, rule l4, rule p2, rule p, rule est)
  qed
  show ?thesis
    by (intro conjI) (rule n, rule h, rule eq, rule u, rule ex, rule otra)
qed

section \<open>The pause state machine\<close>

lemma en_pausa_iff: "en_pausa d id_op \<longleftrightarrow> pausas_abiertas d id_op \<noteq> []"
  by (auto simp: en_pausa_def pausas_abiertas_def list_ex_iff filter_empty_conv)

lemma py_int_total_seconds: "py_int (total_seconds us) = segundos_truncados us"
proof (cases "0 \<le> us")
  case True
  then have "\<lfloor>rat_of_int us / 1000000\<rfloor> = us div 1000000"
    using floor_divide_of_int_eq [of us 1000000, where ?'a = rat] by simp
  with True show ?thesis
    by (cases "us = 0") (simp_all add: py_int_def total_seconds_def segundos_truncados_def)
next
  case False
  then have neg: "us < 0" by simp
  have "\<lceil>rat_of_int us / 1000000\<rceil> = - \<lfloor>rat_of_int (- us) / 1000000\<rfloor>"
    by (simp add: ceiling_def)
  also have "\<dots> = - ((- us) div 1000000)"
    using floor_divide_of_int_eq [of "- us" 1000000, where ?'a = rat] by simp
  finally have "\<lceil>rat_of_int us / 1000000\<rceil> = - ((- us) div 1000000)" .
  with neg show ?thesis
    by (simp add: py_int_def total_seconds_def segundos_truncados_def
        divide_neg_pos not_le)
qed

lemma registrar_pausa_INICIO_abierta:
  assumes "req_accion pausa = INICIO" and "en_pausa d (req_id_operario pausa)"
  shows "registrar_pausa d ahora pausa =
           (Inl (HTTPException 400 ''Ya existe una pausa activa para este operario''), d)"
proof -
  from assms(2) obtain p ps where "pausas_abiertas d (req_id_operario pausa) = p # ps"
    by (auto simp: en_pausa_iff neq_Nil_conv)
  with assms(1) show ?thesis by (simp add: registrar_pausa_def)
qed

lemma registrar_pausa_FIN_sin_pausa:
  assumes "req_accion pausa = FIN" and "\<not> en_pausa d (req_id_operario pausa)"
  shows "registrar_pausa d ahora pausa =
           (Inl (HTTPException 404 ''No hay pausas activas para este operario''), d)"
  using assms by (simp add: registrar_pausa_def en_pausa_iff order_by_desc_def)

lemma registrar_pausa_INICIO_ok:
  assumes "req_accion pausa = INICIO" and "\<not> en_pausa d (req_id_operario pausa)"
  shows "registrar_pausa d ahora pausa =
           (Inr \<lparr> resp_id_pausa = seq_id_pausa d, resp_duracion_s = None \<rparr>,
            d \<lparr> Registros_Pausas := Registros_Pausas d @
                   [\<lparr> id_pausa = seq_id_pausa d, rp_id_operario = req_id_operario pausa,
                      hora_inicio_pausa = ahora, hora_fin_pausa = None,
                      motivo = req_motivo pausa, duracion_s = None, finalizada = False \<rparr>],
                seq_id_pausa := seq_id_pausa d + 1 \<rparr>)"
  using assms by (simp add: registrar_pausa_def en_pausa_iff Let_def)

lemma registrar_pausa_FIN_ok:
  assumes "req_accion pausa = FIN"
      and "order_by_desc hora_inicio_pausa (pausas_abiertas d (req_id_operario pausa)) = p # ps"
  shows "registrar_pausa d ahora pausa =
           (Inr \<lparr> resp_id_pausa = id_pausa p,
                  resp_duracion_s = Some (segundos_truncados (ahora - hora_inicio_pausa p)) \<rparr>,
            d \<lparr> Registros_Pausas :=
                  update_pausa (id_pausa p) ahora
                    (segundos_truncados (ahora - hora_inicio_pausa p)) (Registros_Pausas d) \<rparr>)"
  using assms by (simp add: registrar_pausa_def Let_def py_int_total_seconds)

text \<open>
  C7. A request to open a pause while the operator has an open pause raises the error
  with status 400 and detail "Ya existe una pausa activa para este operario"; a request
  to close a pause while the operator has none raises the error with status 404 and
  detail "No hay pausas activas para este operario". Both leave the database as it was.
  The other two transitions are accepted: opening without an open pause succeeds and
  leaves the operator paused, closing with an open pause succeeds.
\<close>

theorem C7_pause_transitions:
  "(req_accion pausa = INICIO \<and> en_pausa d (req_id_operario pausa) \<longrightarrow>
      registrar_pausa d ahora pausa =
        (Inl (HTTPException 400 ''Ya existe una pausa activa para este operario''), d))
   \<and> (req_accion pausa = FIN \<and> \<not> en_pausa d (req_id_operario pausa) \<longrightarrow>
      registrar_pausa d ahora pausa =
        (Inl (HTTPException 404 ''No hay pausas activas para este operario''), d))
   \<and> (req_accion pausa = INICIO \<and> \<not> en_pausa d (req_id_operario pausa) \<longrightarrow>
      (\<exists>resp. fst (registrar_pausa d ahora pausa) = Inr resp)
      \<and> en_pausa (snd (registrar_pausa d ahora pausa)) (req_id_operario pausa))
   \<and> (req_accion pausa = FIN \<and> en_pausa d (req_id_operario pausa) \<longrightarrow>
      (\<exists>resp. fst (registrar_pausa d ahora pausa) = Inr resp))"
proof (intro conjI impI)
  assume "req_accion pausa = INICIO \<and> en_pausa d (req_id_operario pausa)"
  then show "registrar_pausa d ahora pausa =
        (Inl (HTTPException 400 ''Ya existe una pausa activa para este operario''), d)"
    by (simp add: registrar_pausa_INICIO_abierta)
next
  assume "req_accion pausa = FIN \<and> \<not> en_pausa d (req_id_operario pausa)"
  then show "registrar_pausa d ahora pausa =
        (Inl (HTTPException 404 ''No hay pausas activas para este operario''), d)"
    by (simp add: registrar_pausa_FIN_sin_pausa)
next
  assume a: "req_accion pausa = INICIO \<and> \<not> en_pausa d (req_id_operario pausa)"
  then show "\<exists>resp. fst (registrar_pausa d ahora pausa) = Inr resp"
    by (simp add: registrar_pausa_INICIO_ok)
  from a show "en_pausa (snd (registrar_pausa d ahora pausa)) (req_id_operario pausa)"
    by (simp add: registrar_pausa_INICIO_ok) (simp add: en_pausa_def)
next
  assume a: "req_accion pausa = FIN \<and> en_pausa d (req_id_operario pausa)"
  then obtain p ps
    where "order_by_desc hora_inicio_pausa (pausas_abiertas d (req_id_operario pausa)) = p # ps"
    by (metis en_pausa_iff order_by_desc_Nil_iff neq_Nil_conv)
  with a show "\<exists>resp. fst (registrar_pausa d ahora pausa) = Inr resp"
    by (simp add: registrar_pausa_FIN_ok)
qed

theorem C7_pause_transitions_witness:
  "registrar_pausa db_pausa_abierta 110500000
      \<lparr> req_id_operario = 3582, req_accion = INICIO, req_motivo = Some ''Descanso'' \<rparr>
     = (Inl (HTTPException 400 ''Ya existe una pausa activa para este operario''),
        db_pausa_abierta)
   \<and> registrar_pausa db_inicial 110500000
      \<lparr> req_id_operario = 3582, req_accion = FIN, req_motivo = None \<rparr>
     = (Inl (HTTPException 404 ''No hay pausas activas para este operario''), db_inicial)
   \<and> en_pausa (snd (registrar_pausa db_inicial 110500000
        \<lparr> req_id_operario = 3582, req_accion = INICIO, req_motivo = None \<rparr>)) 3582
   \<and> (\<exists>resp. fst (registrar_pausa db_pausa_abierta 110500000
        \<lparr> req_id_operario = 3582, req_accion = FIN, req_motivo = None \<rparr>) = Inr resp)"
proof -
  have p: "en_pausa db_pausa_abierta 3582"
    by (simp add: en_pausa_def db_pausa_abierta_def pausa_abierta_def)
  have n: "\<not> en_pausa db_inicial 3582"
    by (simp add: en_pausa_def db_inicial_def)
  from p n
    C7_pause_transitions [of "\<lparr> req_id_operario = 3582, req_accion = INICIO,
        req_motivo = Some ''Descanso'' \<rparr>" db_pausa_abierta 110500000]
    C7_pause_transitions [of "\<lparr> req_id_operario = 3582, req_accion = FIN,
        req_motivo = None \<rparr>" db_inicial 110500000]
    C7_pause_transitions [of "\<lparr> req_id_operario = 3582, req_accion = INICIO,
        req_motivo = None \<rparr>" db_inicial 110500000]
    C7_pause_transitions [of "\<lparr> req_id_operario = 3582, req_accion = FIN,
        req_motivo = None \<rparr>" db_pausa_abierta 110500000]
  show ?thesis by simp
qed

text \<open>
  C8. A request to close a pause for an operator with an open pause picks an open row
  \<open>p\<close> of the operator with the latest start, answers with its identifier and the whole
  seconds from its start to now (rounded towards zero), and writes the end timestamp now,
  that duration and \<^verbatim>\<open>finalizada = TRUE\<close> into the rows with its identifier, which is the
  row \<open>p\<close> alone when identifiers are unique.
\<close>

theorem C8_close_pause:
  assumes "req_accion pausa = FIN" and "en_pausa d (req_id_operario pausa)"
  shows "\<exists>p. p \<in> set (Registros_Pausas d)
           \<and> rp_id_operario p = req_id_operario pausa \<and> \<not> finalizada p
           \<and> (\<forall>q \<in> set (Registros_Pausas d).
                 rp_id_operario q = req_id_operario pausa \<and> \<not> finalizada q \<longrightarrow>
                 hora_inicio_pausa q \<le> hora_inicio_pausa p)
           \<and> registrar_pausa d ahora pausa =
               (Inr \<lparr> resp_id_pausa = id_pausa p,
                      resp_duracion_s =
                        Some (segundos_truncados (ahora - hora_inicio_pausa p)) \<rparr>,
                d \<lparr> Registros_Pausas :=
                      map (\<lambda>q. if id_pausa q = id_pausa p
                                then q \<lparr> hora_fin_pausa := Some ahora,
                                         duracion_s :=
                                           Some (segundos_truncados
                                                   (ahora - hora_inicio_pausa p)),
                                         finalizada := True \<rparr>
                                else q)
                          (Registros_Pausas d) \<rparr>)
           \<and> (distinct (map id_pausa (Registros_Pausas d)) \<longrightarrow>
                Registros_Pausas (snd (registrar_pausa d ahora pausa)) =
                  map (\<lambda>q. if q = p
                            then q \<lparr> hora_fin_pausa := Some ahora,
                                     duracion_s :=
                                       Some (segundos_truncados
                                               (ahora - hora_inicio_pausa p)),
                                     finalizada := True \<rparr>
                            else q)
                      (Registros_Pausas d))"
proof -
  let ?op = "req_id_operario pausa"
  from assms(2) obtain p ps
    where ys: "order_by_desc hora_inicio_pausa (pausas_abiertas d ?op) = p # ps"
    by (metis en_pausa_iff order_by_desc_Nil_iff neq_Nil_conv)
  have "p \<in> set (order_by_desc hora_inicio_pausa (pausas_abiertas d ?op))"
    by (simp add: ys)
  then have p: "p \<in> set (Registros_Pausas d)" "rp_id_operario p = ?op" "\<not> finalizada p"
    by (simp_all add: pausas_abiertas_def)
  have mx: "\<forall>q \<in> set (Registros_Pausas d).
              rp_id_operario q = ?op \<and> \<not> finalizada q \<longrightarrow>
              hora_inicio_pausa q \<le> hora_inicio_pausa p"
  proof (intro ballI impI)
    fix q
    assume "q \<in> set (Registros_Pausas d)" and "rp_id_operario q = ?op \<and> \<not> finalizada q"
    then have "q \<in> set (pausas_abiertas d ?op)"
      by (simp add: pausas_abiertas_def)
    with ys show "hora_inicio_pausa q \<le> hora_inicio_pausa p"
      by (rule order_by_desc_hd_max)
  qed
  note r = registrar_pausa_FIN_ok [OF assms(1) ys, of ahora, unfolded update_pausa_def]
  have u: "Registros_Pausas (snd (registrar_pausa d ahora pausa)) =
             map (\<lambda>q. if q = p
                       then q \<lparr> hora_fin_pausa := Some ahora,
                                duracion_s :=
                                  Some (segundos_truncados (ahora - hora_inicio_pausa p)),
                                finalizada := True \<rparr>
                       else q)
                 (Registros_Pausas d)"
    if "distinct (map id_pausa (Registros_Pausas d))"
  proof -
    from that have "inj_on id_pausa (set (Registros_Pausas d))"
      by (simp add: distinct_map)
    with p(1) have "\<forall>q \<in> set (Registros_Pausas d). id_pausa q = id_pausa p \<longleftrightarrow> q = p"
      by (auto dest: inj_onD)
    then show ?thesis
      by (simp add: r cong: map_cong)
  qed
  from p mx r u show ?thesis by blast
qed

theorem C8_close_pause_witness:
  "registrar_pausa db_pausa_abierta 110500000
      \<lparr> req_id_operario = 3582, req_accion = FIN, req_motivo = None \<rparr>
   = (Inr \<lparr> resp_id_pausa = 1, resp_duracion_s = Some 8 \<rparr>,
      db_pausa_abierta \<lparr> Registros_Pausas :=
        [pausa_abierta \<lparr> hora_fin_pausa := Some 110500000, duracion_s := Some 8,
                         finalizada := True \<rparr>] \<rparr>)"
proof -
  let ?req = "\<lparr> req_id_operario = 3582, req_accion = FIN, req_motivo = None \<rparr>"
  have h: "req_accion ?req = FIN" "en_pausa db_pausa_abierta (req_id_operario ?req)"
    by (simp_all add: en_pausa_def db_pausa_abierta_def pausa_abierta_def)
  have rows: "Registros_Pausas db_pausa_abierta = [pausa_abierta]"
    by (simp add: db_pausa_abierta_def)
  from C8_close_pause [OF h, of 110500000]
  show ?thesis
    by (auto simp: rows) (simp_all add: pausa_abierta_def segundos_truncados_def)
qed

end
